theory Spec2Isabelle
  imports Complex_Main
begin

section \<open>Data model (src/src/types.ts)\<close>

text \<open>
  The simulation core of the climbing game is embedded here: the entities and the
  configuration of \<^verbatim>\<open>types.ts\<close>, the helpers of \<^verbatim>\<open>utils.ts\<close>
  and the methods of class \<^verbatim>\<open>Game\<close> and of \<^verbatim>\<open>BonusCrawlerFeature\<close> in
  \<^verbatim>\<open>game.ts\<close> that advance the simulation.

  Conventions of the embedding.
  \<^item> A TypeScript \<^verbatim>\<open>number\<close> is a \<^typ>\<open>real\<close>: arithmetic is exact, and there is
    no NaN and no infinity. The one division by a value that can be zero, in
    \<^verbatim>\<open>advanceHumanJump\<close>, is written out for a zero divisor (\<open>jumpProgress\<close>
    below). Where the source takes \<^verbatim>\<open>Math.sqrt\<close>, the model agrees with it for a
    non-negative argument only.
  \<^item> A method that mutates \<^verbatim>\<open>this\<close> takes the game and returns the new game; a
    method that also returns a value returns a pair.
  \<^item> \<^verbatim>\<open>Math.random()\<close> and \<^verbatim>\<open>Date.now()\<close> are inputs: every draw is an
    argument of the function that makes it.
  \<^item> Record fields keep the names of the source; a field name that occurs in two types
    carries the type as a prefix (\<open>human_y\<close>, \<open>plat_y\<close>, \<open>vec_y\<close>).
  \<^item> Left out: the canvas, the DOM and local storage, \<^verbatim>\<open>resize\<close> (its result
    \<^verbatim>\<open>viewHeightMeters\<close> is a parameter of a new game), and the sprite bookkeeping:
    the \<^verbatim>\<open>rotation\<close> and \<^verbatim>\<open>spriteFrame\<close> of projectiles and platforms, the
    hero's throw, bounce and turn flags with \<^verbatim>\<open>updateHeroAnimation\<close>, the human's
    idle clips with \<^verbatim>\<open>pickIdleClip\<close> and \<^verbatim>\<open>updateHumanIdleAnimation\<close>, and
    \<^verbatim>\<open>updateScoreUi\<close>. Those fields are written by the simulation and read by the
    renderer and the input handlers only; no field kept here is computed from them.
\<close>

datatype GameMode = playing | gameover

datatype HumanState = idle | jumping | worry

datatype HumanJumpPhase = prep | ascend | descend | land

record Vec2 =
  vec_x :: real
  vec_y :: real

record PhysicsConfig =
  gravity :: real

record ThrowingConfig =
  speed :: real
  cooldown :: real

record PlatformConfig =
  count :: real
  width :: real
  height :: real

record HeroConfig =
  peakOffset :: real
  peakRandomness :: real
  minPeak :: real

record HumanConfig =
  jumpThreshold :: real
  jumpDuration :: real
  jumpArc :: real
  worryDuration :: real

record CameraConfig =
  offset :: real
  followSpeed :: real

record FeaturesConfig =
  bonusCrawler :: bool
  bonusReward :: real
  bonusSpeed :: real
  bonusRespawn :: real

record UiConfig =
  promptDuration :: real

record GameConfig =
  physics :: PhysicsConfig
  throwing :: ThrowingConfig
  platform :: PlatformConfig
  hero_cfg :: HeroConfig
  human_cfg :: HumanConfig
  camera :: CameraConfig
  features_cfg :: FeaturesConfig
  ui :: UiConfig

record Platform =
  plat_id :: real
  plat_y :: real
  createdAt :: real

record Projectile =
  proj_id :: real
  pos :: Vec2
  vel :: Vec2
  startX :: real
  age :: real
  active :: bool

record Hero =
  hero_pos :: Vec2
  hero_vel :: Vec2
  squish :: real

record Human =
  human_y :: real
  human_state :: HumanState
  jumpPhase :: HumanJumpPhase
  jumpPhaseTime :: real
  jumpStart :: real
  jumpTarget :: real
  jumpTime :: real
  worryTime :: real

text \<open>The private fields of \<^verbatim>\<open>BonusCrawlerFeature\<close> (game.ts, lines 52-57).\<close>

record BonusCrawlerFeature =
  crawler_y :: real
  crawler_active :: bool
  respawnTimer :: real
  flashTime :: real

text \<open>
  The simulation fields of class \<^verbatim>\<open>Game\<close> (game.ts, lines 150-187). The only
  feature ever registered is the bonus crawler (\<^verbatim>\<open>resetGame\<close>), so the feature list
  is a list of crawlers.
\<close>

record Game =
  config :: GameConfig
  mode :: GameMode
  cameraY :: real
  viewHeightMeters :: real
  maxAltitude :: real
  heroGroundY :: real
  hero :: Hero
  human :: Human
  platforms :: "Platform list"
  projectiles :: "Projectile list"
  features :: "BonusCrawlerFeature list"
  platformsLeft :: real
  score :: real
  lastThrowAt :: real
  time :: real
  promptTimer :: real

section \<open>Helpers (utils.ts, animation.ts, config.ts)\<close>

definition clamp :: "real \<Rightarrow> real \<Rightarrow> real \<Rightarrow> real" where
  "clamp v lo hi = min hi (max lo v)"

definition lerp :: "real \<Rightarrow> real \<Rightarrow> real \<Rightarrow> real" where
  "lerp a b t = a + (b - a) * t"

text \<open>\<^verbatim>\<open>randRange(min, max)\<close>, with the value \<open>u\<close> of its \<^verbatim>\<open>Math.random()\<close> call.\<close>

definition randRange :: "real \<Rightarrow> real \<Rightarrow> real \<Rightarrow> real" where
  "randRange u lo hi = lo + u * (hi - lo)"

definition easeInOut :: "real \<Rightarrow> real" where
  "easeInOut t = (if t < 1 / 2 then 2 * t * t else 1 - (- 2 * t + 2) ^ 2 / 2)"

record ClipSpec =
  clip_row :: nat
  clip_start :: nat
  clip_length :: nat
  clip_fps :: real

definition clipDuration :: "ClipSpec \<Rightarrow> real" where
  "clipDuration clip = real (clip_length clip) / max 1 (clip_fps clip)"

text \<open>\<^verbatim>\<open>HUMAN_ANIM.jump.prep\<close> and \<^verbatim>\<open>HUMAN_ANIM.jump.landRatio\<close>.\<close>

definition HUMAN_ANIM_jump_prep :: ClipSpec where
  "HUMAN_ANIM_jump_prep = \<lparr>clip_row = 1, clip_start = 1, clip_length = 1, clip_fps = 10\<rparr>"

definition HUMAN_ANIM_jump_landRatio :: real where
  "HUMAN_ANIM_jump_landRatio = 88 / 100"

definition DEFAULT_CONFIG :: GameConfig where
  "DEFAULT_CONFIG =
     \<lparr>physics = \<lparr>gravity = 14\<rparr>,
      throwing = \<lparr>speed = 10, cooldown = 2 / 10\<rparr>,
      platform = \<lparr>count = 10, width = 85 / 100, height = 18 / 100\<rparr>,
      hero_cfg = \<lparr>peakOffset = 2, peakRandomness = 5 / 10, minPeak = 16 / 10\<rparr>,
      human_cfg = \<lparr>jumpThreshold = 2, jumpDuration = 6 / 10, jumpArc = 7 / 10,
                   worryDuration = 6 / 10\<rparr>,
      camera = \<lparr>offset = 24 / 10, followSpeed = 56 / 10\<rparr>,
      features_cfg = \<lparr>bonusCrawler = True, bonusReward = 3, bonusSpeed = 17 / 10,
                      bonusRespawn = 2\<rparr>,
      ui = \<lparr>promptDuration = 2\<rparr>\<rparr>"

section \<open>The run controller (game.ts, class Game)\<close>

subsection \<open>Throwing and the platform budget\<close>

text \<open>
  \<^verbatim>\<open>throwPlatform\<close> (lines 575-613). \<open>pid\<close> is the value of
  \<^verbatim>\<open>Date.now() + Math.random()\<close> and \<open>u\<close> the draw of
  \<^verbatim>\<open>randRange(0.35, 0.75)\<close>.
\<close>

definition throwPlatform :: "real \<Rightarrow> real \<Rightarrow> Game \<Rightarrow> bool \<times> Game" where
  "throwPlatform pid u g =
     (let now = time g in
      if mode g \<noteq> playing then (False, g)
      else if platformsLeft g \<le> 0 then (False, g)
      else if now - lastThrowAt g < cooldown (throwing (config g)) then (False, g)
      else
        let startX' = vec_x (hero_pos (hero g)) - 2 / 10;
            gravity' = gravity (physics (config g)) * (85 / 100);
            arcHeight = randRange u (35 / 100) (75 / 100);
            arcVy = sqrt (2 * gravity' * arcHeight);
            projectile =
              \<lparr>proj_id = pid,
               pos = \<lparr>vec_x = startX', vec_y = vec_y (hero_pos (hero g)) + 6 / 10\<rparr>,
               vel = \<lparr>vec_x = - speed (throwing (config g)), vec_y = arcVy\<rparr>,
               startX = startX', age = 0, active = True\<rparr>
        in (True, g\<lparr>projectiles := projectiles g @ [projectile],
                    platformsLeft := platformsLeft g - 1,
                    lastThrowAt := now,
                    promptTimer := 0\<rparr>))"

text \<open>\<^verbatim>\<open>addPlatforms\<close> (lines 615-621).\<close>

definition addPlatforms :: "real \<Rightarrow> Game \<Rightarrow> Game" where
  "addPlatforms amount g =
     g\<lparr>platformsLeft := min (count (platform (config g))) (platformsLeft g + amount)\<rparr>"

subsection \<open>The human's decision policy\<close>

text \<open>
  \<^verbatim>\<open>findReachablePlatform\<close> (lines 871-885): the loop over \<^verbatim>\<open>this.platforms\<close>,
  with the candidate found so far.
\<close>

fun findReachable_loop :: "Game \<Rightarrow> Platform list \<Rightarrow> Platform option \<Rightarrow> Platform option" where
  "findReachable_loop g [] candidate = candidate"
| "findReachable_loop g (p # ps) candidate =
     (if plat_y p \<le> human_y (human g) then findReachable_loop g ps candidate
      else
        let delta = plat_y p - human_y (human g) in
        if delta \<le> jumpThreshold (human_cfg (config g)) then
          (if (case candidate of None \<Rightarrow> True | Some c \<Rightarrow> plat_y p > plat_y c)
           then findReachable_loop g ps (Some p)
           else findReachable_loop g ps candidate)
        else findReachable_loop g ps candidate)"

definition findReachablePlatform :: "Game \<Rightarrow> Platform option" where
  "findReachablePlatform g = findReachable_loop g (platforms g) None"

text \<open>\<^verbatim>\<open>attemptHumanJump\<close> (lines 887-905).\<close>

definition attemptHumanJump :: "Game \<Rightarrow> bool \<times> Game" where
  "attemptHumanJump g =
     (if human_state (human g) = jumping then (False, g)
      else case findReachablePlatform g of
        None \<Rightarrow> (False, g)
      | Some target \<Rightarrow>
          (True, g\<lparr>human := (human g)\<lparr>human_state := jumping,
                                       jumpPhase := prep,
                                       jumpPhaseTime := 0,
                                       jumpStart := human_y (human g),
                                       jumpTarget := plat_y target,
                                       jumpTime := 0,
                                       worryTime := 0\<rparr>\<rparr>))"

text \<open>
  \<^verbatim>\<open>handlePlatformPlacement\<close> (lines 784-795). The source does not read its
  argument \<open>platformY\<close>.
\<close>

definition handlePlatformPlacement :: "real \<Rightarrow> Game \<Rightarrow> Game" where
  "handlePlatformPlacement platformY g =
     (if human_state (human g) = jumping then g
      else case attemptHumanJump g of
        (True, g') \<Rightarrow> g'
      | (False, g') \<Rightarrow>
          g'\<lparr>human := (human g')\<lparr>human_state := worry,
                                  worryTime := worryDuration (human_cfg (config g'))\<rparr>\<rparr>)"

text \<open>
  The normalized progress of line 833,
  \<^verbatim>\<open>clamp(this.human.jumpTime / this.config.human.jumpDuration, 0, 1)\<close>, for an elapsed
  time \<open>a\<close> and a duration \<open>d\<close>. For \<open>d = 0\<close> the quotient of the source is
  \<^verbatim>\<open>Infinity\<close> when \<open>a > 0\<close>, which the clamp takes to \<open>1\<close>, and
  \<^verbatim>\<open>-Infinity\<close> when \<open>a < 0\<close>, which it takes to \<open>0\<close>. For \<open>a = 0\<close> and
  \<open>d = 0\<close> it is \<^verbatim>\<open>NaN\<close>, and so is the clamp: every comparison
  \<^verbatim>\<open>t >= c\<close> of lines 840-855 is then false, as it is for \<open>t = 0\<close>, the value the
  model takes there. Phase and state of the model are those of the source in every case;
  in that last case the height of the model is \<^verbatim>\<open>jumpStart\<close> where the source has
  \<^verbatim>\<open>NaN\<close>.
\<close>

definition jumpProgress :: "real \<Rightarrow> real \<Rightarrow> real" where
  "jumpProgress a d =
     (if d = 0 then (if 0 < a then 1 else 0)
      else clamp (a / d) 0 1)"

text \<open>\<^verbatim>\<open>advanceHumanJump\<close> (lines 831-864).\<close>

definition advanceHumanJump :: "real \<Rightarrow> Game \<Rightarrow> Game" where
  "advanceHumanJump dt g =
     (let h1 = (human g)\<lparr>jumpTime := jumpTime (human g) + dt\<rparr>;
          t = jumpProgress (jumpTime h1) (jumpDuration (human_cfg (config g)));
          eased = easeInOut t;
          arc = sin (t * pi) * jumpArc (human_cfg (config g));
          h2 = h1\<lparr>human_y := lerp (jumpStart h1) (jumpTarget h1) eased + arc\<rparr>;
          landRatio = clamp HUMAN_ANIM_jump_landRatio 0 1;
          nextPhase = (if t \<ge> landRatio then land
                       else if t \<ge> 1 / 2 then descend
                       else ascend);
          h3 = (if nextPhase \<noteq> jumpPhase h2
                then h2\<lparr>jumpPhase := nextPhase, jumpPhaseTime := 0\<rparr>
                else h2\<lparr>jumpPhaseTime := jumpPhaseTime h2 + dt\<rparr>);
          h4 = (if t \<ge> 1
                then h3\<lparr>human_state := idle,
                        jumpPhase := land,
                        jumpPhaseTime := 0,
                        human_y := jumpTarget h3\<rparr>
                else h3)
      in g\<lparr>human := h4\<rparr>)"

text \<open>
  \<^verbatim>\<open>updateHuman\<close> (lines 797-829): three \<^verbatim>\<open>if\<close> statements in a row, each
  reading the state the one before it left.
\<close>

definition updateHuman_jumping :: "real \<Rightarrow> Game \<Rightarrow> Game" where
  "updateHuman_jumping dt g =
     (if human_state (human g) = jumping then
        (if jumpPhase (human g) = prep then
           let prepDuration = clipDuration HUMAN_ANIM_jump_prep;
               h1 = (human g)\<lparr>jumpPhaseTime := jumpPhaseTime (human g) + dt\<rparr>;
               h2 = h1\<lparr>human_y := jumpStart h1\<rparr>
           in if jumpPhaseTime h2 \<ge> prepDuration then
                let overflow = jumpPhaseTime h2 - prepDuration;
                    h3 = h2\<lparr>jumpPhase := ascend, jumpPhaseTime := 0, jumpTime := 0\<rparr>
                in if overflow > 0 then advanceHumanJump overflow (g\<lparr>human := h3\<rparr>)
                   else g\<lparr>human := h3\<rparr>
              else g\<lparr>human := h2\<rparr>
         else advanceHumanJump dt g)
      else g)"

definition updateHuman_worry :: "real \<Rightarrow> Game \<Rightarrow> Game" where
  "updateHuman_worry dt g =
     (if human_state (human g) = worry then
        let h1 = (human g)\<lparr>worryTime := max 0 (worryTime (human g) - dt)\<rparr>
        in if worryTime h1 \<le> 0 then g\<lparr>human := h1\<lparr>human_state := idle\<rparr>\<rparr>
           else g\<lparr>human := h1\<rparr>
      else g)"

definition updateHuman_idle :: "Game \<Rightarrow> Game" where
  "updateHuman_idle g =
     (if human_state (human g) = idle then snd (attemptHumanJump g) else g)"

definition updateHuman :: "real \<Rightarrow> Game \<Rightarrow> Game" where
  "updateHuman dt g = updateHuman_idle (updateHuman_worry dt (updateHuman_jumping dt g))"

subsection \<open>The physics engine\<close>

text \<open>
  \<^verbatim>\<open>updateHero\<close> (lines 651-699). \<open>u\<close> is the draw of the
  \<^verbatim>\<open>randRange\<close> call, made on ground contact only.
\<close>

definition updateHero :: "real \<Rightarrow> real \<Rightarrow> Game \<Rightarrow> Game" where
  "updateHero u dt g =
     (let h0 = hero g;
          v1 = (hero_vel h0)\<lparr>vec_y := vec_y (hero_vel h0) - gravity (physics (config g)) * dt\<rparr>;
          p1 = (hero_pos h0)\<lparr>vec_y := vec_y (hero_pos h0) + vec_y v1 * dt\<rparr>;
          h1 = h0\<lparr>hero_pos := p1, hero_vel := v1\<rparr>;
          h2 = (if vec_y (hero_pos h1) \<le> heroGroundY g then
                  let peakBase = human_y (human g) + peakOffset (hero_cfg (config g));
                      desiredApex =
                        max (minPeak (hero_cfg (config g)))
                            (peakBase + randRange u (- peakRandomness (hero_cfg (config g)))
                                                    (peakRandomness (hero_cfg (config g))));
                      heightFromGround = max (1 / 10) (desiredApex - heroGroundY g);
                      desiredVy = sqrt (2 * gravity (physics (config g)) * heightFromGround)
                  in h1\<lparr>hero_pos := (hero_pos h1)\<lparr>vec_y := heroGroundY g\<rparr>,
                        squish := 1,
                        hero_vel := (hero_vel h1)\<lparr>vec_y := desiredVy\<rparr>\<rparr>
                else h1)
      in g\<lparr>hero := h2\<lparr>squish := max 0 (squish h2 - dt * (28 / 10))\<rparr>\<rparr>)"

text \<open>\<^verbatim>\<open>updateCamera\<close> (lines 866-869).\<close>

definition updateCamera :: "real \<Rightarrow> Game \<Rightarrow> Game" where
  "updateCamera dt g =
     (let target = max 0 (vec_y (hero_pos (hero g)) - offset (camera (config g)))
      in g\<lparr>cameraY := lerp (cameraY g) target
                          (clamp (dt * followSpeed (camera (config g))) 0 1)\<rparr>)"

subsection \<open>The bonus crawler (game.ts, class BonusCrawlerFeature)\<close>

text \<open>\<^verbatim>\<open>BonusCrawlerFeature.update\<close> (lines 59-85); it reads the game only.\<close>

definition crawler_update :: "real \<Rightarrow> Game \<Rightarrow> BonusCrawlerFeature \<Rightarrow> BonusCrawlerFeature" where
  "crawler_update dt g f =
     (let cfg = features_cfg (config g) in
      if \<not> bonusCrawler cfg then f\<lparr>crawler_active := False, respawnTimer := 0\<rparr>
      else if \<not> crawler_active f then
        let f1 = f\<lparr>respawnTimer := respawnTimer f - dt\<rparr>
        in if respawnTimer f1 \<le> 0 then f1\<lparr>crawler_active := True, crawler_y := - 2\<rparr> else f1
      else
        let f1 = f\<lparr>crawler_y := crawler_y f + bonusSpeed cfg * dt\<rparr>;
            f2 = (if crawler_y f1 > maxAltitude g + viewHeightMeters g
                  then f1\<lparr>crawler_active := False, respawnTimer := bonusRespawn cfg\<rparr>
                  else f1)
        in if flashTime f2 > 0 then f2\<lparr>flashTime := max 0 (flashTime f2 - dt)\<rparr> else f2)"

text \<open>
  \<^verbatim>\<open>BonusCrawlerFeature.onProjectile\<close> (lines 87-105): whether the projectile is
  consumed, the crawler afterwards, and the game afterwards (a hit calls
  \<^verbatim>\<open>game.addPlatforms\<close>).
\<close>

definition crawler_onProjectile ::
  "Projectile \<Rightarrow> Game \<Rightarrow> BonusCrawlerFeature \<Rightarrow> bool \<times> BonusCrawlerFeature \<times> Game" where
  "crawler_onProjectile p g f =
     (if \<not> crawler_active f then (False, f, g)
      else
        let crawlerX = 25 / 100;
            dx = vec_x (pos p) - crawlerX;
            dy = vec_y (pos p) - crawler_y f;
            hitRadius = 35 / 100
        in if dx * dx + dy * dy \<le> hitRadius * hitRadius then
             (True,
              f\<lparr>crawler_active := False, flashTime := 35 / 100,
                respawnTimer := bonusRespawn (features_cfg (config g))\<rparr>,
              addPlatforms (bonusReward (features_cfg (config g))) g)
           else (False, f, g))"

text \<open>\<^verbatim>\<open>BonusCrawlerFeature.onReset\<close> (lines 143-147).\<close>

definition crawler_onReset :: "Game \<Rightarrow> BonusCrawlerFeature \<Rightarrow> BonusCrawlerFeature" where
  "crawler_onReset g f =
     f\<lparr>crawler_active := False,
       respawnTimer := bonusRespawn (features_cfg (config g)),
       flashTime := 0\<rparr>"

text \<open>The field initialisers of a \<^verbatim>\<open>new BonusCrawlerFeature()\<close>.\<close>

definition new_BonusCrawlerFeature :: BonusCrawlerFeature where
  "new_BonusCrawlerFeature =
     \<lparr>crawler_y = 0, crawler_active = False, respawnTimer = 0, flashTime = 0\<rparr>"

subsection \<open>Projectiles\<close>

text \<open>
  The inner loop of \<^verbatim>\<open>updateProjectiles\<close> (lines 747-752): the projectile is
  offered to the features in order, and the loop breaks at the first one that consumes it.
  The result is whether one did, the features afterwards, and the game afterwards.
\<close>

fun offerToFeatures ::
  "Projectile \<Rightarrow> BonusCrawlerFeature list \<Rightarrow> Game \<Rightarrow> bool \<times> BonusCrawlerFeature list \<times> Game" where
  "offerToFeatures p [] g = (False, [], g)"
| "offerToFeatures p (f # fs) g =
     (case crawler_onProjectile p g f of
        (True, f', g') \<Rightarrow> (True, f' # fs, g')
      | (False, f', g') \<Rightarrow>
          (case offerToFeatures p fs g' of (c, fs', g'') \<Rightarrow> (c, f' # fs', g'')))"

text \<open>
  The integration step of \<^verbatim>\<open>updateProjectiles\<close> (lines 740-743). \<open>gravity'\<close> is
  the local constant of line 732.
\<close>

definition moveProjectile :: "real \<Rightarrow> real \<Rightarrow> Projectile \<Rightarrow> Projectile" where
  "moveProjectile gravity' dt p =
     (let p1 = p\<lparr>age := age p + dt\<rparr>;
          p2 = p1\<lparr>vel := (vel p1)\<lparr>vec_y := vec_y (vel p1) - gravity' * dt\<rparr>\<rparr>;
          p3 = p2\<lparr>pos := (pos p2)\<lparr>vec_x := vec_x (pos p2) + vec_x (vel p2) * dt\<rparr>\<rparr>
      in p3\<lparr>pos := (pos p3)\<lparr>vec_y := vec_y (pos p3) + vec_y (vel p3) * dt\<rparr>\<rparr>)"

text \<open>
  The body of the outer loop of \<^verbatim>\<open>updateProjectiles\<close> (lines 736-778), for one
  projectile. \<open>fresh_id n\<close> is the value of \<^verbatim>\<open>Date.now() + Math.random()\<close> for
  the platform pushed when \<open>n\<close> platforms exist. The result is the projectile and the
  game afterwards.
\<close>

definition updateProjectile ::
  "real \<Rightarrow> real \<Rightarrow> (nat \<Rightarrow> real) \<Rightarrow> Projectile \<Rightarrow> Game \<Rightarrow> Projectile \<times> Game" where
  "updateProjectile gravity' dt fresh_id p g =
     (if \<not> active p then (p, g)
      else
        let p4 = moveProjectile gravity' dt p
        in case offerToFeatures p4 (features g) g of
          (consumed, fs, g1) \<Rightarrow>
            let g2 = g1\<lparr>features := fs\<rparr>;
                p5 = (if consumed then p4\<lparr>active := False\<rparr> else p4)
            in if \<not> active p5 then (p5, g2)
               else
                 let wallX = 0;
                     (p6, g3) =
                       (if vec_x (pos p5) \<le> wallX then
                          let platformY = max 0 (vec_y (pos p5));
                              g' = g2\<lparr>platforms := platforms g2 @
                                       [\<lparr>plat_id = fresh_id (length (platforms g2)),
                                         plat_y = platformY,
                                         createdAt = time g2\<rparr>]\<rparr>
                          in (p5\<lparr>active := False\<rparr>, handlePlatformPlacement platformY g')
                        else (p5, g2))
                 in if vec_y (pos p6) < - 2
                       \<or> vec_y (pos p6) > cameraY g3 + viewHeightMeters g3 + 6
                    then (p6\<lparr>active := False\<rparr>, g3)
                    else (p6, g3))"

text \<open>
  The outer loop. The projectile objects are mutated in place; nothing in the loop body
  reads \<^verbatim>\<open>this.projectiles\<close>, so the loop returns the updated list and the field is
  written once, by the filter of line 781.
\<close>

fun updateProjectiles_loop ::
  "real \<Rightarrow> real \<Rightarrow> (nat \<Rightarrow> real) \<Rightarrow> Projectile list \<Rightarrow> Game \<Rightarrow> Projectile list \<times> Game" where
  "updateProjectiles_loop gravity' dt fresh_id [] g = ([], g)"
| "updateProjectiles_loop gravity' dt fresh_id (p # ps) g =
     (case updateProjectile gravity' dt fresh_id p g of
        (p', g') \<Rightarrow>
          (case updateProjectiles_loop gravity' dt fresh_id ps g' of
             (ps', g'') \<Rightarrow> (p' # ps', g'')))"

definition updateProjectiles :: "real \<Rightarrow> (nat \<Rightarrow> real) \<Rightarrow> Game \<Rightarrow> Game" where
  "updateProjectiles dt fresh_id g =
     (let gravity' = gravity (physics (config g)) * (85 / 100) in
      case updateProjectiles_loop gravity' dt fresh_id (projectiles g) g of
        (ps, g') \<Rightarrow> g'\<lparr>projectiles := filter active ps\<rparr>)"

subsection \<open>The tick\<close>

text \<open>\<^verbatim>\<open>endGame\<close> (lines 958-962).\<close>

definition endGame :: "Game \<Rightarrow> Game" where
  "endGame g = g\<lparr>mode := gameover\<rparr>"

text \<open>The inputs of one tick: the hero's draw and the platform ids.\<close>

record TickEnv =
  peak_draw :: real
  fresh_id :: "nat \<Rightarrow> real"

text \<open>
  \<^verbatim>\<open>update\<close> (lines 623-649), in two parts: the statements of lines 628-644,
  which advance the simulation, and the guard of line 624 with the check of lines 646-648.
\<close>

definition update_steps :: "TickEnv \<Rightarrow> real \<Rightarrow> Game \<Rightarrow> Game" where
  "update_steps env dt g =
     (let g1 = g\<lparr>time := time g + dt\<rparr>;
          g2 = g1\<lparr>promptTimer := max 0 (promptTimer g1 - dt)\<rparr>;
          g3 = updateHero (peak_draw env) dt g2;
          g4 = updateProjectiles dt (fresh_id env) g3;
          g5 = updateHuman dt g4;
          g6 = updateCamera dt g5;
          g7 = g6\<lparr>maxAltitude :=
                    max (max (maxAltitude g6) (vec_y (hero_pos (hero g6))))
                        (human_y (human g6))\<rparr>;
          g8 = g7\<lparr>features := map (crawler_update dt g7) (features g7)\<rparr>
      in g8\<lparr>score := max (score g8) (human_y (human g8))\<rparr>)"

definition update :: "TickEnv \<Rightarrow> real \<Rightarrow> Game \<Rightarrow> Game" where
  "update env dt g =
     (if mode g \<noteq> playing then g
      else
        let g9 = update_steps env dt g
        in if platformsLeft g9 \<le> 0 \<and> projectiles g9 = [] \<and> human_state (human g9) = idle
           then endGame g9
           else g9)"

text \<open>
  \<^verbatim>\<open>resetGame\<close> (lines 489-550). \<open>pid\<close> is the id of the platform the human
  starts on.
\<close>

definition resetGame :: "real \<Rightarrow> Game \<Rightarrow> Game" where
  "resetGame pid g =
     (let g1 = g\<lparr>mode := playing, time := 0, platforms := [], projectiles := []\<rparr>;
          g2 = g1\<lparr>features := map (crawler_onReset g1) [new_BonusCrawlerFeature]\<rparr>;
          g3 = g2\<lparr>platformsLeft := count (platform (config g2)),
                  hero := \<lparr>hero_pos = \<lparr>vec_x = 31 / 10, vec_y = heroGroundY g2\<rparr>,
                           hero_vel = \<lparr>vec_x = 0, vec_y = 0\<rparr>,
                           squish = 0\<rparr>\<rparr>;
          initialPlatformY = jumpThreshold (human_cfg (config g3));
          g4 = g3\<lparr>human := \<lparr>human_y = initialPlatformY, human_state = idle,
                            jumpPhase = prep, jumpPhaseTime = 0,
                            jumpStart = initialPlatformY, jumpTarget = initialPlatformY,
                            jumpTime = 0, worryTime = 0\<rparr>\<rparr>;
          g5 = g4\<lparr>score := 0, maxAltitude := 0, cameraY := 0,
                  promptTimer := promptDuration (ui (config g4)),
                  lastThrowAt := 0\<rparr>
      in g5\<lparr>platforms := platforms g5 @
               [\<lparr>plat_id = pid, plat_y = initialPlatformY, createdAt = time g5 - 1\<rparr>]\<rparr>)"

text \<open>
  The constructor (lines 226-285) with the field initialisers of the class, for a loaded
  configuration \<open>cfg\<close>. The visible span \<open>vh\<close> is what \<^verbatim>\<open>resize\<close> computes
  from the canvas.
\<close>

definition newGame :: "GameConfig \<Rightarrow> real \<Rightarrow> real \<Rightarrow> Game" where
  "newGame cfg vh pid =
     (resetGame pid
        \<lparr>config = cfg, mode = playing, cameraY = 0, viewHeightMeters = 6, maxAltitude = 0,
         heroGroundY = 0,
         hero = \<lparr>hero_pos = \<lparr>vec_x = 31 / 10, vec_y = 0\<rparr>,
                 hero_vel = \<lparr>vec_x = 0, vec_y = 0\<rparr>, squish = 0\<rparr>,
         human = \<lparr>human_y = 0, human_state = idle, jumpPhase = prep, jumpPhaseTime = 0,
                  jumpStart = 0, jumpTarget = 0, jumpTime = 0, worryTime = 0\<rparr>,
         platforms = [], projectiles = [], features = [],
         platformsLeft = 0, score = 0, lastThrowAt = 0, time = 0, promptTimer = 0\<rparr>)
       \<lparr>viewHeightMeters := vh\<rparr>"

section \<open>Runs and the vocabulary of the properties\<close>

text \<open>
  What can happen to a game between two resets: a tick with its inputs, a call of
  \<^verbatim>\<open>throwPlatform\<close> with its two draws, a call of \<^verbatim>\<open>addPlatforms\<close>.
\<close>

datatype Event = Tick TickEnv real | Throw real real | AddPlatforms real

fun step :: "Event \<Rightarrow> Game \<Rightarrow> Game" where
  "step (Tick env dt) g = update env dt g"
| "step (Throw pid u) g = snd (throwPlatform pid u g)"
| "step (AddPlatforms a) g = addPlatforms a g"

fun run :: "Event list \<Rightarrow> Game \<Rightarrow> Game" where
  "run [] g = g"
| "run (e # es) g = run es (step e g)"

text \<open>
  The simulation time of the last successful throw in the run \<open>es\<close> from \<open>g\<close>, and
  \<open>None\<close> when the run has none.
\<close>

fun lastSuccessfulThrow :: "Event list \<Rightarrow> Game \<Rightarrow> real option" where
  "lastSuccessfulThrow [] g = None"
| "lastSuccessfulThrow (e # es) g =
     (case lastSuccessfulThrow es (step e g) of
        Some t \<Rightarrow> Some t
      | None \<Rightarrow>
          (case e of
             Throw pid u \<Rightarrow> if fst (throwPlatform pid u g) then Some (time g) else None
           | Tick env dt \<Rightarrow> None
           | AddPlatforms a \<Rightarrow> None))"

text \<open>
  A platform qualifies as a jump target when it is strictly above the human and at most
  \<^verbatim>\<open>jumpThreshold\<close> above.
\<close>

definition qualifies :: "Game \<Rightarrow> Platform \<Rightarrow> bool" where
  "qualifies g p \<longleftrightarrow>
     plat_y p > human_y (human g) \<and>
     plat_y p - human_y (human g) \<le> jumpThreshold (human_cfg (config g))"

text \<open>The apex of a bounce that leaves the trampoline with vertical velocity \<open>v\<close>.\<close>

definition impliedApex :: "Game \<Rightarrow> real \<Rightarrow> real" where
  "impliedApex g v = heroGroundY g + v ^ 2 / (2 * gravity (physics (config g)))"

text \<open>
  The jump of the human completes in a call \<^verbatim>\<open>updateHuman(dt)\<close>: the progress that
  \<^verbatim>\<open>advanceHumanJump\<close> computes in that call reaches \<open>1\<close>. In the phase
  \<^verbatim>\<open>prep\<close> the call reaches \<^verbatim>\<open>advanceHumanJump\<close> only with the time that is left
  over when the preparation clip ends, and the elapsed time starts from that.
\<close>

definition jumpCompletes :: "real \<Rightarrow> Game \<Rightarrow> bool" where
  "jumpCompletes dt g \<longleftrightarrow>
     human_state (human g) = jumping \<and>
     (if jumpPhase (human g) = prep
      then clipDuration HUMAN_ANIM_jump_prep < jumpPhaseTime (human g) + dt \<and>
           1 \<le> jumpProgress (jumpPhaseTime (human g) + dt - clipDuration HUMAN_ANIM_jump_prep)
                              (jumpDuration (human_cfg (config g)))
      else 1 \<le> jumpProgress (jumpTime (human g) + dt) (jumpDuration (human_cfg (config g))))"

text \<open>The test of \<^verbatim>\<open>BonusCrawlerFeature.onProjectile\<close>: the crawler is hit.\<close>

definition crawler_hits :: "Projectile \<Rightarrow> BonusCrawlerFeature \<Rightarrow> bool" where
  "crawler_hits p f \<longleftrightarrow>
     crawler_active f \<and>
     (vec_x (pos p) - 25 / 100) * (vec_x (pos p) - 25 / 100)
       + (vec_y (pos p) - crawler_y f) * (vec_y (pos p) - crawler_y f)
     \<le> (35 / 100) * (35 / 100)"

text \<open>The crawler after a hit.\<close>

definition crawler_struck :: "Game \<Rightarrow> BonusCrawlerFeature \<Rightarrow> BonusCrawlerFeature" where
  "crawler_struck g f =
     f\<lparr>crawler_active := False, flashTime := 35 / 100,
       respawnTimer := bonusRespawn (features_cfg (config g))\<rparr>"

text \<open>
  The outcome of one step of the pass for a projectile \<open>p\<close> in a game \<open>g\<close>, read off
  the position after the integration step: skipped (\<open>p\<close> is not active), consumed by a
  crawler, stuck to the wall, lost from the vertical window, or flying on.
\<close>

datatype Outcome = Skipped | Consumed | Stuck | Lost | Flying

definition outcome :: "real \<Rightarrow> real \<Rightarrow> Projectile \<Rightarrow> Game \<Rightarrow> Outcome" where
  "outcome gr dt p g =
     (if \<not> active p then Skipped
      else if \<exists>f\<in>set (features g). crawler_hits (moveProjectile gr dt p) f then Consumed
      else if vec_x (pos (moveProjectile gr dt p)) \<le> 0 then Stuck
      else if vec_y (pos (moveProjectile gr dt p)) < - 2 \<or>
              cameraY g + viewHeightMeters g + 6 < vec_y (pos (moveProjectile gr dt p))
           then Lost
      else Flying)"

text \<open>
  The steps of a pass over the projectiles \<open>ps\<close> from the game \<open>g\<close>: each
  projectile with the game in which the body of the loop processes it.
\<close>

fun passTrace ::
  "real \<Rightarrow> real \<Rightarrow> (nat \<Rightarrow> real) \<Rightarrow> Projectile list \<Rightarrow> Game \<Rightarrow> (Projectile \<times> Game) list" where
  "passTrace gr dt ids [] g = []"
| "passTrace gr dt ids (p # ps) g =
     (p, g) # passTrace gr dt ids ps (snd (updateProjectile gr dt ids p g))"

text \<open>The platform pushed when \<open>p\<close> sticks to the wall in the game \<open>g\<close>.\<close>

definition stuckPlatform :: "real \<Rightarrow> real \<Rightarrow> (nat \<Rightarrow> real) \<Rightarrow> Projectile \<Rightarrow> Game \<Rightarrow> Platform" where
  "stuckPlatform gr dt ids p g =
     \<lparr>plat_id = ids (length (platforms g)),
      plat_y = max 0 (vec_y (pos (moveProjectile gr dt p))),
      createdAt = time g\<rparr>"

text \<open>
  Configurations and inputs of the concrete scenarios below. Every value is one the
  settings panel accepts (\<^verbatim>\<open>clampConfigValue\<close> keeps a number in \<open>[0, 999]\<close> and
  does not round it).
\<close>

definition cfg_half_platform :: GameConfig where
  "cfg_half_platform = DEFAULT_CONFIG\<lparr>platform := (platform DEFAULT_CONFIG)\<lparr>count := 1 / 2\<rparr>\<rparr>"

definition cfg_fast_throw :: GameConfig where
  "cfg_fast_throw =
     DEFAULT_CONFIG\<lparr>platform := (platform DEFAULT_CONFIG)\<lparr>count := 1 / 2\<rparr>,
                    throwing := \<lparr>speed = 100, cooldown = 0\<rparr>,
                    human_cfg := (human_cfg DEFAULT_CONFIG)\<lparr>worryDuration := 3 / 100\<rparr>\<rparr>"

definition env_bounce10 :: TickEnv where
  "env_bounce10 = \<lparr>peak_draw = 1 / 14, fresh_id = (\<lambda>n. real n)\<rparr>"

definition game_default :: Game where
  "game_default = newGame DEFAULT_CONFIG 6 0"

definition game_three_platforms :: Game where
  "game_three_platforms =
     game_default
       \<lparr>human := (human game_default)\<lparr>human_y := 1\<rparr>,
        platforms := [\<lparr>plat_id = 1, plat_y = 5, createdAt = 0\<rparr>,
                      \<lparr>plat_id = 2, plat_y = 2, createdAt = 0\<rparr>,
                      \<lparr>plat_id = 3, plat_y = 7 / 2, createdAt = 0\<rparr>]\<rparr>"

definition game_half_thrown :: Game where
  "game_half_thrown = snd (throwPlatform 1 (67 / 952) (newGame cfg_fast_throw 6 0))"

definition cfg_low_threshold :: GameConfig where
  "cfg_low_threshold =
     DEFAULT_CONFIG\<lparr>throwing := \<lparr>speed = 100, cooldown = 0\<rparr>,
                    human_cfg := (human_cfg DEFAULT_CONFIG)\<lparr>jumpThreshold := 7 / 10\<rparr>\<rparr>"

definition env_bounce8 :: TickEnv where
  "env_bounce8 = \<lparr>peak_draw = 3 / 35, fresh_id = (\<lambda>n. real n)\<rparr>"

definition game_worried :: Game where
  "game_worried =
     run [Throw 1 (67 / 952), Tick env_bounce8 (33 / 1000), Tick env_bounce8 (33 / 1000),
          Throw 2 (67 / 952)]
       (newGame cfg_low_threshold 6 0)"

definition game_landing :: Game where
  "game_landing =
     game_default
       \<lparr>human := \<lparr>human_y = 29 / 10, human_state = jumping, jumpPhase = land,
                   jumpPhaseTime = 1 / 100, jumpStart = 2, jumpTarget = 3,
                   jumpTime = 59 / 100, worryTime = 0\<rparr>,
        platforms := [\<lparr>plat_id = 1, plat_y = 2, createdAt = 0\<rparr>,
                      \<lparr>plat_id = 2, plat_y = 3, createdAt = 0\<rparr>,
                      \<lparr>plat_id = 3, plat_y = 9 / 2, createdAt = 0\<rparr>]\<rparr>"

text \<open>A human in the preparation phase of a jump from 2 to 3, with a jump duration \<open>d\<close>.\<close>

definition game_in_prep :: "real \<Rightarrow> Game" where
  "game_in_prep d =
     game_default
       \<lparr>config := DEFAULT_CONFIG\<lparr>human_cfg := (human_cfg DEFAULT_CONFIG)\<lparr>jumpDuration := d\<rparr>\<rparr>,
        human := \<lparr>human_y = 2, human_state = jumping, jumpPhase = prep,
                   jumpPhaseTime = 9 / 100, jumpStart = 2, jumpTarget = 3,
                   jumpTime = 0, worryTime = 0\<rparr>,
        platforms := [\<lparr>plat_id = 1, plat_y = 2, createdAt = 0\<rparr>,
                      \<lparr>plat_id = 2, plat_y = 3, createdAt = 0\<rparr>,
                      \<lparr>plat_id = 3, plat_y = 9 / 2, createdAt = 0\<rparr>]\<rparr>"

text \<open>
  Three projectiles in flight and an active crawler at height 1: the first two are within
  the crawler's reach after the next step, the second also behind the wall.
\<close>

definition game_three_projectiles :: Game where
  "game_three_projectiles =
     game_default
       \<lparr>platformsLeft := 5,
        features := [\<lparr>crawler_y = 1, crawler_active = True, respawnTimer = 0, flashTime = 0\<rparr>],
        projectiles :=
          [\<lparr>proj_id = 1, pos = \<lparr>vec_x = 35 / 100, vec_y = 1\<rparr>, vel = \<lparr>vec_x = - 3, vec_y = 0\<rparr>,
            startX = 29 / 10, age = 1, active = True\<rparr>,
           \<lparr>proj_id = 2, pos = \<lparr>vec_x = 5 / 100, vec_y = 1\<rparr>, vel = \<lparr>vec_x = - 3, vec_y = 0\<rparr>,
            startX = 29 / 10, age = 1, active = True\<rparr>,
           \<lparr>proj_id = 3, pos = \<lparr>vec_x = 2, vec_y = 1\<rparr>, vel = \<lparr>vec_x = - 3, vec_y = 0\<rparr>,
            startX = 29 / 10, age = 1, active = True\<rparr>]\<rparr>"

section \<open>Auxiliary facts\<close>

lemma sqrt_9: "sqrt 9 = 3"
  by (rule real_sqrt_unique) simp_all

lemma sqrt_64: "sqrt 64 = 8"
  by (rule real_sqrt_unique) simp_all

lemma sqrt_100: "sqrt 100 = 10"
  by (rule real_sqrt_unique) simp_all

text \<open>The definitions a concrete state is evaluated with.\<close>

lemmas game_defs =
  newGame_def resetGame_def DEFAULT_CONFIG_def
  throwPlatform_def update_def update_steps_def updateHero_def updateProjectiles_def
  updateProjectile_def moveProjectile_def crawler_onProjectile_def crawler_update_def
  crawler_onReset_def new_BonusCrawlerFeature_def handlePlatformPlacement_def
  attemptHumanJump_def findReachablePlatform_def updateHuman_def updateHuman_idle_def
  updateHuman_worry_def updateHuman_jumping_def advanceHumanJump_def updateCamera_def
  endGame_def addPlatforms_def randRange_def clamp_def lerp_def easeInOut_def jumpProgress_def
  clipDuration_def HUMAN_ANIM_jump_prep_def HUMAN_ANIM_jump_landRatio_def Let_def

subsection \<open>What each method leaves unchanged\<close>

lemma addPlatforms_frame:
  "config (addPlatforms a g) = config g"
  "mode (addPlatforms a g) = mode g"
  "score (addPlatforms a g) = score g"
  "human (addPlatforms a g) = human g"
  "platforms (addPlatforms a g) = platforms g"
  "projectiles (addPlatforms a g) = projectiles g"
  "lastThrowAt (addPlatforms a g) = lastThrowAt g"
  "time (addPlatforms a g) = time g"
  "cameraY (addPlatforms a g) = cameraY g"
  "viewHeightMeters (addPlatforms a g) = viewHeightMeters g"
  "features (addPlatforms a g) = features g"
  by (simp_all add: addPlatforms_def)

lemma attemptHumanJump_frame:
  "config (snd (attemptHumanJump g)) = config g"
  "mode (snd (attemptHumanJump g)) = mode g"
  "score (snd (attemptHumanJump g)) = score g"
  "lastThrowAt (snd (attemptHumanJump g)) = lastThrowAt g"
  "time (snd (attemptHumanJump g)) = time g"
  "platformsLeft (snd (attemptHumanJump g)) = platformsLeft g"
  "projectiles (snd (attemptHumanJump g)) = projectiles g"
  "platforms (snd (attemptHumanJump g)) = platforms g"
  "features (snd (attemptHumanJump g)) = features g"
  "cameraY (snd (attemptHumanJump g)) = cameraY g"
  "viewHeightMeters (snd (attemptHumanJump g)) = viewHeightMeters g"
  by (simp_all add: attemptHumanJump_def split: option.splits)

lemma handlePlatformPlacement_frame:
  "config (handlePlatformPlacement y g) = config g"
  "mode (handlePlatformPlacement y g) = mode g"
  "score (handlePlatformPlacement y g) = score g"
  "lastThrowAt (handlePlatformPlacement y g) = lastThrowAt g"
  "time (handlePlatformPlacement y g) = time g"
  "platformsLeft (handlePlatformPlacement y g) = platformsLeft g"
  "projectiles (handlePlatformPlacement y g) = projectiles g"
  "platforms (handlePlatformPlacement y g) = platforms g"
  "features (handlePlatformPlacement y g) = features g"
  "cameraY (handlePlatformPlacement y g) = cameraY g"
  "viewHeightMeters (handlePlatformPlacement y g) = viewHeightMeters g"
  by (simp_all add: handlePlatformPlacement_def attemptHumanJump_def split: option.splits)

lemma updateHero_frame:
  "config (updateHero u dt g) = config g"
  "mode (updateHero u dt g) = mode g"
  "score (updateHero u dt g) = score g"
  "lastThrowAt (updateHero u dt g) = lastThrowAt g"
  "time (updateHero u dt g) = time g"
  "platformsLeft (updateHero u dt g) = platformsLeft g"
  "projectiles (updateHero u dt g) = projectiles g"
  "human (updateHero u dt g) = human g"
  "platforms (updateHero u dt g) = platforms g"
  "features (updateHero u dt g) = features g"
  by (simp_all add: updateHero_def Let_def)

lemma updateCamera_frame:
  "config (updateCamera dt g) = config g"
  "mode (updateCamera dt g) = mode g"
  "score (updateCamera dt g) = score g"
  "lastThrowAt (updateCamera dt g) = lastThrowAt g"
  "time (updateCamera dt g) = time g"
  "platformsLeft (updateCamera dt g) = platformsLeft g"
  "projectiles (updateCamera dt g) = projectiles g"
  "human (updateCamera dt g) = human g"
  "platforms (updateCamera dt g) = platforms g"
  "features (updateCamera dt g) = features g"
  by (simp_all add: updateCamera_def Let_def)

lemma advanceHumanJump_frame:
  "config (advanceHumanJump dt g) = config g"
  "mode (advanceHumanJump dt g) = mode g"
  "score (advanceHumanJump dt g) = score g"
  "lastThrowAt (advanceHumanJump dt g) = lastThrowAt g"
  "time (advanceHumanJump dt g) = time g"
  "platformsLeft (advanceHumanJump dt g) = platformsLeft g"
  "projectiles (advanceHumanJump dt g) = projectiles g"
  "platforms (advanceHumanJump dt g) = platforms g"
  "features (advanceHumanJump dt g) = features g"
  by (simp_all add: advanceHumanJump_def Let_def)

lemma updateHuman_frame:
  "config (updateHuman dt g) = config g"
  "mode (updateHuman dt g) = mode g"
  "score (updateHuman dt g) = score g"
  "lastThrowAt (updateHuman dt g) = lastThrowAt g"
  "time (updateHuman dt g) = time g"
  "platformsLeft (updateHuman dt g) = platformsLeft g"
  "projectiles (updateHuman dt g) = projectiles g"
  "platforms (updateHuman dt g) = platforms g"
  "features (updateHuman dt g) = features g"
  by (simp_all add: updateHuman_def updateHuman_idle_def updateHuman_worry_def
        updateHuman_jumping_def Let_def attemptHumanJump_frame advanceHumanJump_frame)

subsection \<open>The crawler and the feature loop\<close>

lemma crawler_onProjectile_eq:
  "crawler_onProjectile p g f =
     (if crawler_hits p f
      then (True, crawler_struck g f, addPlatforms (bonusReward (features_cfg (config g))) g)
      else (False, f, g))"
  by (simp add: crawler_onProjectile_def crawler_hits_def crawler_struck_def Let_def)

lemma offerToFeatures_miss:
  "\<forall>f\<in>set fs. \<not> crawler_hits p f \<Longrightarrow> offerToFeatures p fs g = (False, fs, g)"
  by (induction fs) (simp_all add: crawler_onProjectile_eq)

lemma offerToFeatures_hit:
  assumes "\<forall>f\<in>set pre. \<not> crawler_hits p f" and "crawler_hits p f"
  shows "offerToFeatures p (pre @ f # post) g =
           (True, pre @ crawler_struck g f # post,
            addPlatforms (bonusReward (features_cfg (config g))) g)"
  using assms by (induction pre) (simp_all add: crawler_onProjectile_eq)

lemma first_hit_split:
  assumes "\<exists>f\<in>set fs. crawler_hits p f"
  shows "\<exists>pre f post. fs = pre @ f # post \<and> (\<forall>f'\<in>set pre. \<not> crawler_hits p f') \<and> crawler_hits p f"
  using assms
proof (induction fs)
  case Nil
  then show ?case by simp
next
  case (Cons a fs)
  show ?case
  proof (cases "crawler_hits p a")
    case True
    then have "a # fs = [] @ a # fs \<and> (\<forall>f'\<in>set []. \<not> crawler_hits p f') \<and> crawler_hits p a"
      by simp
    then show ?thesis by blast
  next
    case False
    with Cons.prems have "\<exists>f\<in>set fs. crawler_hits p f" by simp
    from Cons.IH[OF this] obtain pre f post where
      "fs = pre @ f # post" "\<forall>f'\<in>set pre. \<not> crawler_hits p f'" "crawler_hits p f" by blast
    with False have "a # fs = (a # pre) @ f # post \<and>
        (\<forall>f'\<in>set (a # pre). \<not> crawler_hits p f') \<and> crawler_hits p f" by simp
    then show ?thesis by blast
  qed
qed

subsection \<open>One projectile\<close>

lemma updateProjectile_inactive:
  "\<not> active p \<Longrightarrow> updateProjectile gr dt ids p g = (p, g)"
  by (simp add: updateProjectile_def)

lemma moveProjectile_active: "active (moveProjectile gr dt p) = active p"
  by (simp add: moveProjectile_def Let_def)

lemma updateProjectile_consumed:
  assumes "active p" and "\<forall>f'\<in>set pre. \<not> crawler_hits (moveProjectile gr dt p) f'"
    and "crawler_hits (moveProjectile gr dt p) f" and "features g = pre @ f # post"
  shows "updateProjectile gr dt ids p g =
     ((moveProjectile gr dt p)\<lparr>active := False\<rparr>,
      (addPlatforms (bonusReward (features_cfg (config g))) g)
        \<lparr>features := pre @ crawler_struck g f # post\<rparr>)"
  using assms
  by (simp add: updateProjectile_def offerToFeatures_hit Let_def)

lemma updateProjectile_wall:
  assumes "active p" and "\<forall>f\<in>set (features g). \<not> crawler_hits (moveProjectile gr dt p) f"
    and "vec_x (pos (moveProjectile gr dt p)) \<le> 0"
  shows "updateProjectile gr dt ids p g =
     ((moveProjectile gr dt p)\<lparr>active := False\<rparr>,
      handlePlatformPlacement (max 0 (vec_y (pos (moveProjectile gr dt p))))
        (g\<lparr>platforms := platforms g @
             [\<lparr>plat_id = ids (length (platforms g)),
               plat_y = max 0 (vec_y (pos (moveProjectile gr dt p))),
               createdAt = time g\<rparr>]\<rparr>))"
  using assms
  by (simp add: updateProjectile_def offerToFeatures_miss Let_def moveProjectile_active)

lemma updateProjectile_flying:
  assumes "active p" and "\<forall>f\<in>set (features g). \<not> crawler_hits (moveProjectile gr dt p) f"
    and "0 < vec_x (pos (moveProjectile gr dt p))"
  shows "updateProjectile gr dt ids p g =
     ((moveProjectile gr dt p)
        \<lparr>active := \<not> (vec_y (pos (moveProjectile gr dt p)) < - 2 \<or>
                      vec_y (pos (moveProjectile gr dt p)) > cameraY g + viewHeightMeters g + 6)\<rparr>,
      g)"
  using assms
  by (simp add: updateProjectile_def offerToFeatures_miss Let_def moveProjectile_active)

lemma updateProjectile_platforms:
  "length (platforms (snd (updateProjectile gr dt ids p g)))
     \<le> length (platforms g) + (if active p then 1 else 0)"
  "length (platforms g) \<le> length (platforms (snd (updateProjectile gr dt ids p g)))"
  "length (platforms (snd (updateProjectile gr dt ids p g))) = length (platforms g)
     \<Longrightarrow> human (snd (updateProjectile gr dt ids p g)) = human g"
proof -
  let ?q = "moveProjectile gr dt p"
  consider (idle) "\<not> active p"
    | (hit) "active p" "\<exists>f\<in>set (features g). crawler_hits ?q f"
    | (wall) "active p" "\<forall>f\<in>set (features g). \<not> crawler_hits ?q f" "vec_x (pos ?q) \<le> 0"
    | (fly) "active p" "\<forall>f\<in>set (features g). \<not> crawler_hits ?q f" "0 < vec_x (pos ?q)"
    by fastforce
  then have "length (platforms (snd (updateProjectile gr dt ids p g)))
     \<le> length (platforms g) + (if active p then 1 else 0) \<and>
     length (platforms g) \<le> length (platforms (snd (updateProjectile gr dt ids p g))) \<and>
     (length (platforms (snd (updateProjectile gr dt ids p g))) = length (platforms g)
       \<longrightarrow> human (snd (updateProjectile gr dt ids p g)) = human g)"
  proof cases
    case idle
    then show ?thesis by (simp add: updateProjectile_inactive)
  next
    case hit
    from first_hit_split[OF hit(2)] obtain pre f post where
      "features g = pre @ f # post" "\<forall>f'\<in>set pre. \<not> crawler_hits ?q f'" "crawler_hits ?q f"
      by blast
    with hit(1) show ?thesis
      by (simp add: updateProjectile_consumed[where pre = pre and f = f and post = post]
            addPlatforms_frame)
  next
    case wall
    then show ?thesis
      by (simp add: updateProjectile_wall handlePlatformPlacement_frame)
  next
    case fly
    then show ?thesis by (simp add: updateProjectile_flying)
  qed
  then show "length (platforms (snd (updateProjectile gr dt ids p g)))
     \<le> length (platforms g) + (if active p then 1 else 0)"
  "length (platforms g) \<le> length (platforms (snd (updateProjectile gr dt ids p g)))"
  "length (platforms (snd (updateProjectile gr dt ids p g))) = length (platforms g)
     \<Longrightarrow> human (snd (updateProjectile gr dt ids p g)) = human g"
    by simp_all
qed

lemma updateProjectile_frame:
  "config (snd (updateProjectile gr dt ids p g)) = config g"
  "mode (snd (updateProjectile gr dt ids p g)) = mode g"
  "score (snd (updateProjectile gr dt ids p g)) = score g"
  "lastThrowAt (snd (updateProjectile gr dt ids p g)) = lastThrowAt g"
  "time (snd (updateProjectile gr dt ids p g)) = time g"
proof -
  let ?q = "moveProjectile gr dt p"
  let ?g' = "snd (updateProjectile gr dt ids p g)"
  consider (idle) "\<not> active p"
    | (hit) "active p" "\<exists>f\<in>set (features g). crawler_hits ?q f"
    | (wall) "active p" "\<forall>f\<in>set (features g). \<not> crawler_hits ?q f" "vec_x (pos ?q) \<le> 0"
    | (fly) "active p" "\<forall>f\<in>set (features g). \<not> crawler_hits ?q f" "0 < vec_x (pos ?q)"
    by fastforce
  then have "config ?g' = config g \<and> mode ?g' = mode g \<and> score ?g' = score g \<and>
     lastThrowAt ?g' = lastThrowAt g \<and> time ?g' = time g"
  proof cases
    case idle
    then show ?thesis by (simp add: updateProjectile_inactive)
  next
    case hit
    from first_hit_split[OF hit(2)] obtain pre f post where
      "features g = pre @ f # post" "\<forall>f'\<in>set pre. \<not> crawler_hits ?q f'" "crawler_hits ?q f"
      by blast
    with hit(1) show ?thesis
      by (simp add: updateProjectile_consumed[where pre = pre and f = f and post = post]
            addPlatforms_frame)
  next
    case wall
    then show ?thesis
      by (simp add: updateProjectile_wall handlePlatformPlacement_frame)
  next
    case fly
    then show ?thesis by (simp add: updateProjectile_flying)
  qed
  then show "config ?g' = config g" "mode ?g' = mode g" "score ?g' = score g"
    "lastThrowAt ?g' = lastThrowAt g" "time ?g' = time g"
    by simp_all
qed

subsection \<open>The pass over all projectiles\<close>

lemma updateProjectiles_loop_Cons:
  "updateProjectiles_loop gr dt ids (p # ps) g =
     (fst (updateProjectile gr dt ids p g) #
        fst (updateProjectiles_loop gr dt ids ps (snd (updateProjectile gr dt ids p g))),
      snd (updateProjectiles_loop gr dt ids ps (snd (updateProjectile gr dt ids p g))))"
  by (simp split: prod.splits)

lemma updateProjectiles_loop_frame:
  "config (snd (updateProjectiles_loop gr dt ids ps g)) = config g \<and>
   mode (snd (updateProjectiles_loop gr dt ids ps g)) = mode g \<and>
   score (snd (updateProjectiles_loop gr dt ids ps g)) = score g \<and>
   lastThrowAt (snd (updateProjectiles_loop gr dt ids ps g)) = lastThrowAt g \<and>
   time (snd (updateProjectiles_loop gr dt ids ps g)) = time g"
proof (induction ps arbitrary: g)
  case Nil
  show ?case by simp
next
  case (Cons p ps)
  show ?case
    unfolding updateProjectiles_loop_Cons
    using Cons.IH[of "snd (updateProjectile gr dt ids p g)"]
    by (simp add: updateProjectile_frame)
qed

lemma updateProjectiles_loop_platforms:
  "length (platforms g) \<le> length (platforms (snd (updateProjectiles_loop gr dt ids ps g))) \<and>
   length (platforms (snd (updateProjectiles_loop gr dt ids ps g)))
     \<le> length (platforms g) + length (filter active ps) \<and>
   (length (platforms (snd (updateProjectiles_loop gr dt ids ps g))) = length (platforms g)
      \<longrightarrow> human (snd (updateProjectiles_loop gr dt ids ps g)) = human g)"
proof (induction ps arbitrary: g)
  case Nil
  show ?case by simp
next
  case (Cons p ps)
  let ?g1 = "snd (updateProjectile gr dt ids p g)"
  let ?g2 = "snd (updateProjectiles_loop gr dt ids ps ?g1)"
  note one = updateProjectile_platforms[where gr = gr and dt = dt and ids = ids and p = p and g = g]
  note ih = Cons.IH[of ?g1]
  have eq: "snd (updateProjectiles_loop gr dt ids (p # ps) g) = ?g2"
    by (simp only: updateProjectiles_loop_Cons snd_conv)
  have a: "length (platforms g) \<le> length (platforms ?g2)"
    using one(2) ih by linarith
  have b: "length (platforms ?g2) \<le> length (platforms g) + length (filter active (p # ps))"
    using one(1) ih by (simp split: if_splits)
  have c: "human ?g2 = human g" if "length (platforms ?g2) = length (platforms g)"
  proof -
    from that one(2) ih have l1: "length (platforms ?g1) = length (platforms g)" by linarith
    with that have "length (platforms ?g2) = length (platforms ?g1)" by simp
    with ih have "human ?g2 = human ?g1" by simp
    with one(3)[OF l1] show ?thesis by simp
  qed
  from a b c show ?case unfolding eq by blast
qed

lemma updateProjectiles_eq:
  "updateProjectiles dt ids g =
     (snd (updateProjectiles_loop (gravity (physics (config g)) * (85 / 100)) dt ids
             (projectiles g) g))
       \<lparr>projectiles :=
          filter active
            (fst (updateProjectiles_loop (gravity (physics (config g)) * (85 / 100)) dt ids
                    (projectiles g) g))\<rparr>"
  unfolding updateProjectiles_def Let_def by (simp only: split_beta)

lemma updateProjectiles_frame:
  "config (updateProjectiles dt ids g) = config g"
  "mode (updateProjectiles dt ids g) = mode g"
  "score (updateProjectiles dt ids g) = score g"
  "lastThrowAt (updateProjectiles dt ids g) = lastThrowAt g"
  "time (updateProjectiles dt ids g) = time g"
  unfolding updateProjectiles_eq
  using updateProjectiles_loop_frame[where gr = "gravity (physics (config g)) * (85 / 100)"
          and dt = dt and ids = ids and ps = "projectiles g" and g = g]
  by simp_all

lemma updateProjectiles_platforms:
  "length (platforms g) \<le> length (platforms (updateProjectiles dt ids g))"
  "length (platforms (updateProjectiles dt ids g))
     \<le> length (platforms g) + length (filter active (projectiles g))"
  "length (platforms (updateProjectiles dt ids g)) = length (platforms g)
     \<Longrightarrow> human (updateProjectiles dt ids g) = human g"
  "\<forall>p\<in>set (projectiles (updateProjectiles dt ids g)). active p"
  unfolding updateProjectiles_eq
  using updateProjectiles_loop_platforms[where gr = "gravity (physics (config g)) * (85 / 100)"
          and dt = dt and ids = ids and ps = "projectiles g" and g = g]
  by simp_all

lemma update_steps_frame:
  "mode (update_steps env dt g) = mode g"
  "config (update_steps env dt g) = config g"
  "lastThrowAt (update_steps env dt g) = lastThrowAt g"
  "time (update_steps env dt g) = time g + dt"
  "score (update_steps env dt g) = max (score g) (human_y (human (update_steps env dt g)))"
  by (simp_all add: update_steps_def Let_def updateCamera_frame updateHuman_frame
        updateProjectiles_frame updateHero_frame)

lemma update_eq:
  "update env dt g =
     (if mode g \<noteq> playing then g
      else if platformsLeft (update_steps env dt g) \<le> 0 \<and>
              projectiles (update_steps env dt g) = [] \<and>
              human_state (human (update_steps env dt g)) = idle
           then (update_steps env dt g)\<lparr>mode := gameover\<rparr>
           else update_steps env dt g)"
  by (simp add: update_def Let_def endGame_def)

subsection \<open>The pass as a sequence of outcomes\<close>

lemma updateProjectile_by_outcome:
  "fst (updateProjectile gr dt ids p g) =
     (case outcome gr dt p g of
        Skipped \<Rightarrow> p
      | Flying \<Rightarrow> moveProjectile gr dt p
      | Consumed \<Rightarrow> (moveProjectile gr dt p)\<lparr>active := False\<rparr>
      | Stuck \<Rightarrow> (moveProjectile gr dt p)\<lparr>active := False\<rparr>
      | Lost \<Rightarrow> (moveProjectile gr dt p)\<lparr>active := False\<rparr>)"
  "platforms (snd (updateProjectile gr dt ids p g)) =
     platforms g @ (if outcome gr dt p g = Stuck then [stuckPlatform gr dt ids p g] else [])"
proof -
  let ?q = "moveProjectile gr dt p"
  consider (idle) "\<not> active p"
    | (hit) "active p" "\<exists>f\<in>set (features g). crawler_hits ?q f"
    | (wall) "active p" "\<forall>f\<in>set (features g). \<not> crawler_hits ?q f" "vec_x (pos ?q) \<le> 0"
    | (fly) "active p" "\<forall>f\<in>set (features g). \<not> crawler_hits ?q f" "0 < vec_x (pos ?q)"
    by fastforce
  then have "fst (updateProjectile gr dt ids p g) =
     (case outcome gr dt p g of
        Skipped \<Rightarrow> p
      | Flying \<Rightarrow> moveProjectile gr dt p
      | Consumed \<Rightarrow> (moveProjectile gr dt p)\<lparr>active := False\<rparr>
      | Stuck \<Rightarrow> (moveProjectile gr dt p)\<lparr>active := False\<rparr>
      | Lost \<Rightarrow> (moveProjectile gr dt p)\<lparr>active := False\<rparr>) \<and>
    platforms (snd (updateProjectile gr dt ids p g)) =
     platforms g @ (if outcome gr dt p g = Stuck then [stuckPlatform gr dt ids p g] else [])"
  proof cases
    case idle
    then show ?thesis by (simp add: updateProjectile_inactive outcome_def)
  next
    case hit
    from first_hit_split[OF hit(2)] obtain pre f post where
      "features g = pre @ f # post" "\<forall>f'\<in>set pre. \<not> crawler_hits ?q f'" "crawler_hits ?q f"
      by blast
    with hit show ?thesis
      by (simp add: updateProjectile_consumed[where pre = pre and f = f and post = post]
            addPlatforms_def outcome_def)
  next
    case wall
    then show ?thesis
      by (simp add: updateProjectile_wall handlePlatformPlacement_frame outcome_def
            stuckPlatform_def)
  next
    case fly
    have "(moveProjectile gr dt p)\<lparr>active := True\<rparr> = moveProjectile gr dt p"
      using fly(1) by (simp add: moveProjectile_def Let_def)
    with fly show ?thesis
      by (auto simp: updateProjectile_flying outcome_def)
  qed
  then show "fst (updateProjectile gr dt ids p g) =
     (case outcome gr dt p g of
        Skipped \<Rightarrow> p
      | Flying \<Rightarrow> moveProjectile gr dt p
      | Consumed \<Rightarrow> (moveProjectile gr dt p)\<lparr>active := False\<rparr>
      | Stuck \<Rightarrow> (moveProjectile gr dt p)\<lparr>active := False\<rparr>
      | Lost \<Rightarrow> (moveProjectile gr dt p)\<lparr>active := False\<rparr>)"
    "platforms (snd (updateProjectile gr dt ids p g)) =
     platforms g @ (if outcome gr dt p g = Stuck then [stuckPlatform gr dt ids p g] else [])"
    by simp_all
qed

lemma updateProjectile_survives:
  "active (fst (updateProjectile gr dt ids p g)) \<longleftrightarrow> outcome gr dt p g = Flying"
proof -
  have "outcome gr dt p g = Skipped \<Longrightarrow> \<not> active p"
    by (simp add: outcome_def split: if_splits)
  moreover have "outcome gr dt p g = Flying \<Longrightarrow> active p"
    by (simp add: outcome_def split: if_splits)
  ultimately show ?thesis
    by (cases "outcome gr dt p g")
       (simp_all add: updateProjectile_by_outcome(1) moveProjectile_active)
qed

lemma updateProjectiles_loop_trace:
  "updateProjectiles_loop gr dt ids ps g =
     (map (\<lambda>(p, s). fst (updateProjectile gr dt ids p s)) (passTrace gr dt ids ps g),
      foldl (\<lambda>s p. snd (updateProjectile gr dt ids p s)) g ps)"
proof (induction ps arbitrary: g)
  case Nil
  show ?case by simp
next
  case (Cons p ps)
  show ?case
    by (simp only: updateProjectiles_loop_Cons Cons.IH passTrace.simps list.map foldl_Cons
          fst_conv snd_conv case_prod_conv)
qed

lemma passTrace_fst: "map fst (passTrace gr dt ids ps g) = ps"
  by (induction ps arbitrary: g) simp_all

lemma passTrace_platforms:
  "platforms (foldl (\<lambda>s p. snd (updateProjectile gr dt ids p s)) g ps) =
     platforms g @
     concat (map (\<lambda>(p, s). if outcome gr dt p s = Stuck then [stuckPlatform gr dt ids p s] else [])
               (passTrace gr dt ids ps g))"
proof (induction ps arbitrary: g)
  case Nil
  show ?case by simp
next
  case (Cons p ps)
  show ?case
    by (simp add: Cons.IH updateProjectile_by_outcome(2))
qed

lemma survivors_of_trace:
  "filter active (map (\<lambda>(p, s). fst (updateProjectile gr dt ids p s)) tr) =
     map (\<lambda>(p, s). moveProjectile gr dt p) (filter (\<lambda>(p, s). outcome gr dt p s = Flying) tr)"
proof (induction tr)
  case Nil
  show ?case by simp
next
  case (Cons a tr)
  obtain p s where a: "a = (p, s)" by (cases a)
  show ?case
  proof (cases "outcome gr dt p s = Flying")
    case True
    then have 1: "active (fst (updateProjectile gr dt ids p s))"
      by (simp add: updateProjectile_survives)
    from True have 2: "fst (updateProjectile gr dt ids p s) = moveProjectile gr dt p"
      by (simp add: updateProjectile_by_outcome(1))
    from 1 2 have 3: "active (moveProjectile gr dt p)" by simp
    from Cons.IH a True show ?thesis by (simp add: 2 3)
  next
    case False
    then have "\<not> active (fst (updateProjectile gr dt ids p s))"
      by (simp add: updateProjectile_survives)
    with Cons.IH a False show ?thesis by simp
  qed
qed

lemma passTrace_nth:
  "Suc i < length ps \<Longrightarrow>
   snd (passTrace gr dt ids ps g ! Suc i) =
     snd (updateProjectile gr dt ids (fst (passTrace gr dt ids ps g ! i))
            (snd (passTrace gr dt ids ps g ! i)))"
proof (induction ps arbitrary: g i)
  case Nil
  then show ?case by simp
next
  case (Cons p ps)
  show ?case
  proof (cases i)
    case 0
    with Cons.prems show ?thesis by (cases ps) simp_all
  next
    case (Suc j)
    with Cons.prems have "Suc j < length ps" by simp
    from Cons.IH[OF this] Suc show ?thesis by simp
  qed
qed

lemma passTrace_length: "length (passTrace gr dt ids ps g) = length ps"
  by (induction ps arbitrary: g) simp_all

lemma passTrace_hd: "ps \<noteq> [] \<Longrightarrow> snd (passTrace gr dt ids ps g ! 0) = g"
  by (cases ps) simp_all

lemma updateProjectile_outcomes:
  assumes "active p"
  shows
   "((\<exists>f\<in>set (features g). crawler_hits (moveProjectile gr dt p) f) \<longrightarrow>
       \<not> active (fst (updateProjectile gr dt ids p g)) \<and>
       platforms (snd (updateProjectile gr dt ids p g)) = platforms g \<and>
       human (snd (updateProjectile gr dt ids p g)) = human g \<and>
       platformsLeft (snd (updateProjectile gr dt ids p g)) =
         min (count (platform (config g)))
             (platformsLeft g + bonusReward (features_cfg (config g))) \<and>
       (\<exists>pre f post.
          features g = pre @ f # post \<and>
          (\<forall>f'\<in>set pre. \<not> crawler_hits (moveProjectile gr dt p) f') \<and>
          crawler_hits (moveProjectile gr dt p) f \<and>
          features (snd (updateProjectile gr dt ids p g)) = pre @ crawler_struck g f # post))
    \<and> ((\<forall>f\<in>set (features g). \<not> crawler_hits (moveProjectile gr dt p) f) \<and>
        vec_x (pos (moveProjectile gr dt p)) \<le> 0 \<longrightarrow>
       \<not> active (fst (updateProjectile gr dt ids p g)) \<and>
       platforms (snd (updateProjectile gr dt ids p g)) =
         platforms g @ [\<lparr>plat_id = ids (length (platforms g)),
                          plat_y = max 0 (vec_y (pos (moveProjectile gr dt p))),
                          createdAt = time g\<rparr>] \<and>
       features (snd (updateProjectile gr dt ids p g)) = features g \<and>
       platformsLeft (snd (updateProjectile gr dt ids p g)) = platformsLeft g)
    \<and> ((\<forall>f\<in>set (features g). \<not> crawler_hits (moveProjectile gr dt p) f) \<and>
        0 < vec_x (pos (moveProjectile gr dt p)) \<and>
        (vec_y (pos (moveProjectile gr dt p)) < - 2 \<or>
         cameraY g + viewHeightMeters g + 6 < vec_y (pos (moveProjectile gr dt p))) \<longrightarrow>
       \<not> active (fst (updateProjectile gr dt ids p g)) \<and>
       snd (updateProjectile gr dt ids p g) = g)
    \<and> ((\<forall>f\<in>set (features g). \<not> crawler_hits (moveProjectile gr dt p) f) \<and>
        0 < vec_x (pos (moveProjectile gr dt p)) \<and>
        \<not> (vec_y (pos (moveProjectile gr dt p)) < - 2 \<or>
           cameraY g + viewHeightMeters g + 6 < vec_y (pos (moveProjectile gr dt p))) \<longrightarrow>
       active (fst (updateProjectile gr dt ids p g)) \<and>
       snd (updateProjectile gr dt ids p g) = g)
    \<and> pos (fst (updateProjectile gr dt ids p g)) = pos (moveProjectile gr dt p)
    \<and> length (platforms (snd (updateProjectile gr dt ids p g))) \<le> Suc (length (platforms g))
    \<and> length (platforms (updateProjectiles dt ids g))
         \<le> length (platforms g) + length (filter active (projectiles g))
    \<and> (\<forall>p'\<in>set (projectiles (updateProjectiles dt ids g)). active p')"
proof -
  let ?q = "moveProjectile gr dt p"
  let ?R = "updateProjectile gr dt ids p g"
  have hit: "\<not> active (fst ?R) \<and> platforms (snd ?R) = platforms g \<and> human (snd ?R) = human g \<and>
       platformsLeft (snd ?R) =
         min (count (platform (config g)))
             (platformsLeft g + bonusReward (features_cfg (config g))) \<and>
       (\<exists>pre f post.
          features g = pre @ f # post \<and> (\<forall>f'\<in>set pre. \<not> crawler_hits ?q f') \<and>
          crawler_hits ?q f \<and> features (snd ?R) = pre @ crawler_struck g f # post) \<and>
       pos (fst ?R) = pos ?q"
    if h: "\<exists>f\<in>set (features g). crawler_hits ?q f"
  proof -
    from first_hit_split[OF h] obtain pre f post where
      s: "features g = pre @ f # post" "\<forall>f'\<in>set pre. \<not> crawler_hits ?q f'" "crawler_hits ?q f"
      by blast
    have e: "?R = (?q\<lparr>active := False\<rparr>,
        (addPlatforms (bonusReward (features_cfg (config g))) g)
          \<lparr>features := pre @ crawler_struck g f # post\<rparr>)"
      using assms s by (intro updateProjectile_consumed) simp_all
    have "\<not> active (fst ?R) \<and> platforms (snd ?R) = platforms g \<and> human (snd ?R) = human g \<and>
       platformsLeft (snd ?R) =
         min (count (platform (config g)))
             (platformsLeft g + bonusReward (features_cfg (config g))) \<and>
       features (snd ?R) = pre @ crawler_struck g f # post \<and> pos (fst ?R) = pos ?q"
      unfolding e by (simp add: addPlatforms_def)
    with s show ?thesis by blast
  qed
  have wall: "\<not> active (fst ?R) \<and>
       platforms (snd ?R) =
         platforms g @ [\<lparr>plat_id = ids (length (platforms g)),
                          plat_y = max 0 (vec_y (pos ?q)), createdAt = time g\<rparr>] \<and>
       features (snd ?R) = features g \<and> platformsLeft (snd ?R) = platformsLeft g \<and>
       pos (fst ?R) = pos ?q"
    if "\<forall>f\<in>set (features g). \<not> crawler_hits ?q f" "vec_x (pos ?q) \<le> 0"
    using assms that by (simp add: updateProjectile_wall handlePlatformPlacement_frame)
  have fly: "active (fst ?R) =
        (\<not> (vec_y (pos ?q) < - 2 \<or> cameraY g + viewHeightMeters g + 6 < vec_y (pos ?q))) \<and>
       snd ?R = g \<and> pos (fst ?R) = pos ?q"
    if "\<forall>f\<in>set (features g). \<not> crawler_hits ?q f" "0 < vec_x (pos ?q)"
    using assms that by (simp add: updateProjectile_flying)
  have position: "pos (fst ?R) = pos ?q"
    using hit wall fly by (cases "\<exists>f\<in>set (features g). crawler_hits ?q f";
                           cases "vec_x (pos ?q) \<le> 0") auto
  have one: "length (platforms (snd ?R)) \<le> Suc (length (platforms g))"
    using updateProjectile_platforms(1)[of gr dt ids p g] assms by simp
  note pass = updateProjectiles_platforms(2,4)[of dt ids g]
  show ?thesis
  proof (intro conjI impI)
    assume h: "\<exists>f\<in>set (features g). crawler_hits ?q f"
    from hit[OF h] show "\<not> active (fst ?R)" "platforms (snd ?R) = platforms g"
      "human (snd ?R) = human g"
      "platformsLeft (snd ?R) =
         min (count (platform (config g)))
             (platformsLeft g + bonusReward (features_cfg (config g)))"
      "\<exists>pre f post.
          features g = pre @ f # post \<and> (\<forall>f'\<in>set pre. \<not> crawler_hits ?q f') \<and>
          crawler_hits ?q f \<and> features (snd ?R) = pre @ crawler_struck g f # post"
      by blast+
  next
    assume w: "(\<forall>f\<in>set (features g). \<not> crawler_hits ?q f) \<and> vec_x (pos ?q) \<le> 0"
    then have w1: "\<forall>f\<in>set (features g). \<not> crawler_hits ?q f" and w2: "vec_x (pos ?q) \<le> 0"
      by blast+
    from wall[OF w1 w2] show "\<not> active (fst ?R)"
      "platforms (snd ?R) =
         platforms g @ [\<lparr>plat_id = ids (length (platforms g)),
                          plat_y = max 0 (vec_y (pos ?q)), createdAt = time g\<rparr>]"
      "features (snd ?R) = features g" "platformsLeft (snd ?R) = platformsLeft g"
      by blast+
  next
    assume o: "(\<forall>f\<in>set (features g). \<not> crawler_hits ?q f) \<and> 0 < vec_x (pos ?q) \<and>
        (vec_y (pos ?q) < - 2 \<or> cameraY g + viewHeightMeters g + 6 < vec_y (pos ?q))"
    then have o1: "\<forall>f\<in>set (features g). \<not> crawler_hits ?q f" and o2: "0 < vec_x (pos ?q)"
      by blast+
    from fly[OF o1 o2] o show "\<not> active (fst ?R)" "snd ?R = g" by blast+
  next
    assume o: "(\<forall>f\<in>set (features g). \<not> crawler_hits ?q f) \<and> 0 < vec_x (pos ?q) \<and>
        \<not> (vec_y (pos ?q) < - 2 \<or> cameraY g + viewHeightMeters g + 6 < vec_y (pos ?q))"
    then have o1: "\<forall>f\<in>set (features g). \<not> crawler_hits ?q f" and o2: "0 < vec_x (pos ?q)"
      by blast+
    from fly[OF o1 o2] o show "active (fst ?R)" "snd ?R = g" by blast+
  next
    show "pos (fst ?R) = pos ?q" by (rule position)
    show "length (platforms (snd ?R)) \<le> Suc (length (platforms g))" by (rule one)
    show "length (platforms (updateProjectiles dt ids g))
         \<le> length (platforms g) + length (filter active (projectiles g))" by (rule pass(1))
    show "\<forall>p'\<in>set (projectiles (updateProjectiles dt ids g)). active p'" by (rule pass(2))
  qed
qed

subsection \<open>The score\<close>

lemma update_score:
  "score (update env dt g) =
     (if mode g = playing then max (score g) (human_y (human (update env dt g))) else score g)"
  by (simp add: update_eq update_steps_frame)

lemma step_score: "score g \<le> score (step e g)"
proof (cases e)
  case (Tick env dt)
  then show ?thesis using update_score[of env dt g] by (simp split: if_splits)
next
  case (Throw pid u)
  then show ?thesis by (simp add: throwPlatform_def Let_def)
next
  case (AddPlatforms a)
  then show ?thesis by (simp add: addPlatforms_def)
qed

lemma run_score: "score g \<le> score (run es g)"
proof (induction es arbitrary: g)
  case Nil
  show ?case by simp
next
  case (Cons e es)
  have "score g \<le> score (step e g)" by (rule step_score)
  also have "\<dots> \<le> score (run es (step e g))" by (rule Cons.IH)
  finally show ?case by simp
qed

subsection \<open>The target search\<close>

lemma findReachable_loop_step:
  "findReachable_loop g (p # ps) c =
     findReachable_loop g ps
       (if qualifies g p \<and> (case c of None \<Rightarrow> True | Some q \<Rightarrow> plat_y p > plat_y q)
        then Some p else c)"
  by (simp add: qualifies_def Let_def)

lemma findReachable_loop_inv:
  assumes "case c of None \<Rightarrow> True | Some q \<Rightarrow> qualifies g q"
  shows "case findReachable_loop g ps c of
           None \<Rightarrow> c = None \<and> (\<forall>p\<in>set ps. \<not> qualifies g p)
         | Some r \<Rightarrow> qualifies g r \<and> (r \<in> set ps \<or> c = Some r) \<and>
                     (\<forall>p\<in>set ps. qualifies g p \<longrightarrow> plat_y p \<le> plat_y r) \<and>
                     (\<forall>q. c = Some q \<longrightarrow> plat_y q \<le> plat_y r)"
  using assms
proof (induction ps arbitrary: c)
  case Nil
  then show ?case by (cases c) simp_all
next
  case (Cons p ps)
  let ?c' = "if qualifies g p \<and> (case c of None \<Rightarrow> True | Some q \<Rightarrow> plat_y p > plat_y q)
             then Some p else c"
  have pre: "case ?c' of None \<Rightarrow> True | Some q \<Rightarrow> qualifies g q"
    using Cons.prems by (simp split: option.splits)
  have eq: "findReachable_loop g (p # ps) c = findReachable_loop g ps ?c'"
    by (rule findReachable_loop_step)
  show ?case
  proof (cases "findReachable_loop g ps ?c'")
    case None
    with Cons.IH[OF pre] eq show ?thesis
      by (auto split: if_splits option.splits)
  next
    case (Some r)
    with Cons.IH[OF pre] eq show ?thesis
      by (cases c) (auto split: if_splits)
  qed
qed

lemma findReachablePlatform_spec:
  "case findReachablePlatform g of
      None \<Rightarrow> \<forall>p\<in>set (platforms g). \<not> qualifies g p
    | Some r \<Rightarrow> r \<in> set (platforms g) \<and> qualifies g r \<and>
                (\<forall>p\<in>set (platforms g). qualifies g p \<longrightarrow> plat_y p \<le> plat_y r)"
  using findReachable_loop_inv[where c = None and g = g and ps = "platforms g"]
  unfolding findReachablePlatform_def by (auto split: option.splits)

subsection \<open>The bounce\<close>

lemma updateHero_contact_vel:
  assumes "vec_y (hero_pos (hero g)) +
           (vec_y (hero_vel (hero g)) - gravity (physics (config g)) * dt) * dt \<le> heroGroundY g"
  shows "vec_y (hero_vel (hero (updateHero u dt g))) =
     sqrt (2 * gravity (physics (config g)) *
       max (1 / 10)
         (max (minPeak (hero_cfg (config g)))
            (human_y (human g) + peakOffset (hero_cfg (config g)) +
             randRange u (- peakRandomness (hero_cfg (config g)))
                         (peakRandomness (hero_cfg (config g))))
          - heroGroundY g))"
  using assms by (simp add: updateHero_def Let_def)

lemma randRange_bounds:
  assumes "0 \<le> R" "0 \<le> u" "u \<le> 1"
  shows "- R \<le> randRange u (- R) R" "randRange u (- R) R \<le> R"
proof -
  have e: "randRange u (- R) R = - R + u * (2 * R)" by (simp add: randRange_def)
  have "0 \<le> u * (2 * R)" using assms by simp
  then show "- R \<le> randRange u (- R) R" using e by simp
  have "u * (2 * R) \<le> 1 * (2 * R)" using assms by (intro mult_right_mono) simp_all
  then show "randRange u (- R) R \<le> R" using e by simp
qed

subsection \<open>The human\<close>

lemma jumpProgress_le_1: "jumpProgress a d \<le> 1"
  by (simp add: jumpProgress_def clamp_def)

lemma jumpProgress_reaches_1:
  "0 < d \<Longrightarrow> 1 \<le> jumpProgress a d \<longleftrightarrow> d \<le> a"
  "d = 0 \<Longrightarrow> 1 \<le> jumpProgress a d \<longleftrightarrow> 0 < a"
proof -
  show "1 \<le> jumpProgress a d \<longleftrightarrow> d \<le> a" if "0 < d"
  proof -
    have "1 \<le> a / d \<longleftrightarrow> d \<le> a" using that by (simp add: le_divide_eq)
    then show ?thesis using that by (auto simp: jumpProgress_def clamp_def max_def min_def)
  qed
  show "1 \<le> jumpProgress a d \<longleftrightarrow> 0 < a" if "d = 0"
    using that by (simp add: jumpProgress_def)
qed

lemma advanceHumanJump_lands:
  assumes "1 \<le> jumpProgress (jumpTime (human g) + dt) (jumpDuration (human_cfg (config g)))"
  shows "advanceHumanJump dt g =
     g\<lparr>human := (human g)\<lparr>jumpTime := jumpTime (human g) + dt, human_state := idle,
                            jumpPhase := land, jumpPhaseTime := 0,
                            human_y := jumpTarget (human g)\<rparr>\<rparr>"
proof -
  have t: "jumpProgress (jumpTime (human g) + dt) (jumpDuration (human_cfg (config g))) = 1"
    using assms jumpProgress_le_1[of "jumpTime (human g) + dt"
                                     "jumpDuration (human_cfg (config g))"]
    by simp
  have lr: "clamp HUMAN_ANIM_jump_landRatio 0 1 = 88 / 100"
    by (simp add: clamp_def HUMAN_ANIM_jump_landRatio_def)
  show ?thesis
    by (simp add: advanceHumanJump_def Let_def t lr)
qed

lemma advanceHumanJump_continues:
  assumes "\<not> 1 \<le> jumpProgress (jumpTime (human g) + dt) (jumpDuration (human_cfg (config g)))"
  shows "human_state (human (advanceHumanJump dt g)) = human_state (human g)"
  using assms by (simp add: advanceHumanJump_def Let_def)

lemma updateHuman_jumping_direct:
  assumes "human_state (human g) = jumping" and "jumpPhase (human g) \<noteq> prep"
  shows "updateHuman_jumping dt g = advanceHumanJump dt g"
  using assms by (simp add: updateHuman_jumping_def)

lemma updateHuman_jumping_prep:
  assumes "human_state (human g) = jumping" and "jumpPhase (human g) = prep"
  shows "updateHuman_jumping dt g =
     (if clipDuration HUMAN_ANIM_jump_prep < jumpPhaseTime (human g) + dt
      then advanceHumanJump (jumpPhaseTime (human g) + dt - clipDuration HUMAN_ANIM_jump_prep)
             (g\<lparr>human := (human g)\<lparr>human_y := jumpStart (human g), jumpPhase := ascend,
                                    jumpPhaseTime := 0, jumpTime := 0\<rparr>\<rparr>)
      else if clipDuration HUMAN_ANIM_jump_prep = jumpPhaseTime (human g) + dt
      then g\<lparr>human := (human g)\<lparr>human_y := jumpStart (human g), jumpPhase := ascend,
                                  jumpPhaseTime := 0, jumpTime := 0\<rparr>\<rparr>
      else g\<lparr>human := (human g)\<lparr>jumpPhaseTime := jumpPhaseTime (human g) + dt,
                                  human_y := jumpStart (human g)\<rparr>\<rparr>)"
  using assms by (auto simp: updateHuman_jumping_def Let_def)

lemma updateHuman_jumping_completes:
  assumes "human_state (human g) = jumping"
  shows "human_state (human (updateHuman_jumping dt g)) = idle \<longleftrightarrow> jumpCompletes dt g"
proof (cases "jumpPhase (human g) = prep")
  case False
  let ?c = "1 \<le> jumpProgress (jumpTime (human g) + dt) (jumpDuration (human_cfg (config g)))"
  have e: "updateHuman_jumping dt g = advanceHumanJump dt g"
    using assms False by (rule updateHuman_jumping_direct)
  have j: "jumpCompletes dt g \<longleftrightarrow> ?c"
    using assms False by (simp add: jumpCompletes_def)
  show ?thesis
  proof (cases ?c)
    case True
    then show ?thesis unfolding e j by (simp add: advanceHumanJump_lands)
  next
    case n: False
    from advanceHumanJump_continues[OF n] assms n show ?thesis unfolding e j by simp
  qed
next
  case True
  let ?o = "jumpPhaseTime (human g) + dt - clipDuration HUMAN_ANIM_jump_prep"
  let ?g' = "g\<lparr>human := (human g)\<lparr>human_y := jumpStart (human g), jumpPhase := ascend,
                                    jumpPhaseTime := 0, jumpTime := 0\<rparr>\<rparr>"
  let ?c = "1 \<le> jumpProgress ?o (jumpDuration (human_cfg (config g)))"
  note e = updateHuman_jumping_prep[OF assms True, of dt]
  have j: "jumpCompletes dt g \<longleftrightarrow>
      clipDuration HUMAN_ANIM_jump_prep < jumpPhaseTime (human g) + dt \<and> ?c"
    using assms True by (simp add: jumpCompletes_def)
  show ?thesis
  proof (cases "clipDuration HUMAN_ANIM_jump_prep < jumpPhaseTime (human g) + dt")
    case over: True
    have e': "updateHuman_jumping dt g = advanceHumanJump ?o ?g'"
      using e over by simp
    show ?thesis
    proof (cases ?c)
      case True
      then have "1 \<le> jumpProgress (jumpTime (human ?g') + ?o)
                                   (jumpDuration (human_cfg (config ?g')))" by simp
      from advanceHumanJump_lands[OF this] True over show ?thesis
        unfolding e' j by simp
    next
      case n: False
      then have "\<not> 1 \<le> jumpProgress (jumpTime (human ?g') + ?o)
                                   (jumpDuration (human_cfg (config ?g')))" by simp
      from advanceHumanJump_continues[OF this] assms n show ?thesis
        unfolding e' j by simp
    qed
  next
    case False
    with e assms show ?thesis unfolding j by (simp split: if_splits)
  qed
qed

lemma updateHuman_jumping_landed:
  assumes "jumpCompletes dt g"
  shows "updateHuman_jumping dt g =
     g\<lparr>human := (human g)\<lparr>jumpTime :=
                             (if jumpPhase (human g) = prep
                              then jumpPhaseTime (human g) + dt - clipDuration HUMAN_ANIM_jump_prep
                              else jumpTime (human g) + dt),
                            human_state := idle, jumpPhase := land, jumpPhaseTime := 0,
                            human_y := jumpTarget (human g)\<rparr>\<rparr>"
proof (cases "jumpPhase (human g) = prep")
  case False
  with assms have j: "human_state (human g) = jumping"
    and c: "1 \<le> jumpProgress (jumpTime (human g) + dt) (jumpDuration (human_cfg (config g)))"
    by (simp_all add: jumpCompletes_def)
  show ?thesis
    unfolding updateHuman_jumping_direct[OF j False] advanceHumanJump_lands[OF c]
    using False by simp
next
  case True
  let ?o = "jumpPhaseTime (human g) + dt - clipDuration HUMAN_ANIM_jump_prep"
  let ?g' = "g\<lparr>human := (human g)\<lparr>human_y := jumpStart (human g), jumpPhase := ascend,
                                    jumpPhaseTime := 0, jumpTime := 0\<rparr>\<rparr>"
  from assms True have j: "human_state (human g) = jumping"
    and over: "clipDuration HUMAN_ANIM_jump_prep < jumpPhaseTime (human g) + dt"
    and c: "1 \<le> jumpProgress ?o (jumpDuration (human_cfg (config g)))"
    by (simp_all add: jumpCompletes_def)
  have e: "updateHuman_jumping dt g = advanceHumanJump ?o ?g'"
    using updateHuman_jumping_prep[OF j True, of dt] over by simp
  from c have "1 \<le> jumpProgress (jumpTime (human ?g') + ?o)
                               (jumpDuration (human_cfg (config ?g')))" by simp
  from advanceHumanJump_lands[OF this] show ?thesis
    unfolding e using True by simp
qed

lemma updateHuman_landing:
  assumes "jumpCompletes dt g"
  shows "updateHuman dt g = snd (attemptHumanJump (updateHuman_jumping dt g))"
  unfolding updateHuman_def
  by (simp add: updateHuman_jumping_landed[OF assms] updateHuman_worry_def updateHuman_idle_def)

lemma updateHuman_calms:
  assumes "human_state (human g) = worry" and "worryTime (human g) \<le> dt"
  shows "updateHuman dt g =
     snd (attemptHumanJump (g\<lparr>human := (human g)\<lparr>worryTime := 0, human_state := idle\<rparr>\<rparr>))"
  using assms
  by (simp add: updateHuman_def updateHuman_jumping_def updateHuman_worry_def
        updateHuman_idle_def Let_def max_def)

lemma updateHuman_worry_pending:
  assumes "human_state (human g) = worry" and "dt < worryTime (human g)"
  shows "human_state (human (updateHuman dt g)) = worry"
  using assms
  by (simp add: updateHuman_def updateHuman_jumping_def updateHuman_worry_def
        updateHuman_idle_def Let_def max_def)

lemma update_steps_human:
  "human (update_steps env dt g) =
     human (updateHuman dt
       (updateProjectiles dt (fresh_id env)
          (updateHero (peak_draw env) dt
             (g\<lparr>time := time g + dt, promptTimer := max 0 (promptTimer g - dt)\<rparr>))))"
  "platforms (update_steps env dt g) =
     platforms (updateProjectiles dt (fresh_id env)
          (updateHero (peak_draw env) dt
             (g\<lparr>time := time g + dt, promptTimer := max 0 (promptTimer g - dt)\<rparr>)))"
  by (simp_all add: update_steps_def Let_def updateCamera_frame updateHuman_frame)

lemma updateHuman_state_only:
  "human_state (human g) = worry \<Longrightarrow> dt < worryTime (human g) \<Longrightarrow> human g' = human g \<Longrightarrow>
   human_state (human (updateHuman dt g')) = worry"
  by (rule updateHuman_worry_pending) simp_all

lemma tick_worry_to_jumping:
  assumes "mode g = playing" and "human_state (human g) = worry"
    and "human_state (human (update env dt g)) = jumping"
  shows "length (platforms g) < length (platforms (update env dt g)) \<or> worryTime (human g) \<le> dt"
proof (rule ccontr)
  assume n: "\<not> ?thesis"
  let ?g3 = "updateHero (peak_draw env) dt
             (g\<lparr>time := time g + dt, promptTimer := max 0 (promptTimer g - dt)\<rparr>)"
  let ?g4 = "updateProjectiles dt (fresh_id env) ?g3"
  have h3: "human ?g3 = human g" "platforms ?g3 = platforms g"
    by (simp_all add: updateHero_frame)
  have hs: "human (update env dt g) = human (updateHuman dt ?g4)"
    "platforms (update env dt g) = platforms ?g4"
    using assms(1) by (simp_all add: update_eq update_steps_human)
  from n hs(2) have "length (platforms ?g4) \<le> length (platforms ?g3)"
    by (simp add: h3)
  with updateProjectiles_platforms(1)[of ?g3 dt "fresh_id env"]
  have "length (platforms ?g4) = length (platforms ?g3)" by simp
  from updateProjectiles_platforms(3)[OF this] have "human ?g4 = human g"
    by (simp add: h3)
  moreover from n have "dt < worryTime (human g)" by simp
  ultimately have "human_state (human (updateHuman dt ?g4)) = worry"
    using assms(2) by (intro updateHuman_state_only[of g]) simp_all
  with hs(1) assms(3) show False by simp
qed

subsection \<open>Throwing\<close>

lemma update_lastThrowAt: "lastThrowAt (update env dt g) = lastThrowAt g"
  by (simp add: update_eq update_steps_frame)

lemma throwPlatform_eq:
  "throwPlatform pid u g =
     (if mode g = playing \<and> 0 < platformsLeft g \<and>
         cooldown (throwing (config g)) \<le> time g - lastThrowAt g
      then (True,
            g\<lparr>projectiles := projectiles g @
                 [\<lparr>proj_id = pid,
                   pos = \<lparr>vec_x = vec_x (hero_pos (hero g)) - 2 / 10,
                          vec_y = vec_y (hero_pos (hero g)) + 6 / 10\<rparr>,
                   vel = \<lparr>vec_x = - speed (throwing (config g)),
                          vec_y = sqrt (2 * (gravity (physics (config g)) * (85 / 100)) *
                                        randRange u (35 / 100) (75 / 100))\<rparr>,
                   startX = vec_x (hero_pos (hero g)) - 2 / 10, age = 0, active = True\<rparr>],
              platformsLeft := platformsLeft g - 1,
              lastThrowAt := time g,
              promptTimer := 0\<rparr>)
      else (False, g))"
  by (simp add: throwPlatform_def Let_def not_less not_le)

lemma step_lastThrowAt:
  "lastThrowAt (step e g) =
     (case e of
        Throw pid u \<Rightarrow> if fst (throwPlatform pid u g) then time g else lastThrowAt g
      | Tick env dt \<Rightarrow> lastThrowAt g
      | AddPlatforms a \<Rightarrow> lastThrowAt g)"
  by (cases e) (simp_all add: update_lastThrowAt throwPlatform_eq addPlatforms_def)

lemma run_lastThrowAt:
  "lastThrowAt (run es g) =
     (case lastSuccessfulThrow es g of None \<Rightarrow> lastThrowAt g | Some t \<Rightarrow> t)"
proof (induction es arbitrary: g)
  case Nil
  show ?case by simp
next
  case (Cons e es)
  show ?case
    using Cons.IH[of "step e g"] step_lastThrowAt[of e g]
    by (cases e) (simp_all split: option.splits)
qed

subsection \<open>Whole-number budgets\<close>

lemma Nats_min: "(a::real) \<in> \<nat> \<Longrightarrow> b \<in> \<nat> \<Longrightarrow> min a b \<in> \<nat>"
  by (simp add: min_def)

lemma Nats_pred: "(a::real) \<in> \<nat> \<Longrightarrow> 0 < a \<Longrightarrow> a - 1 \<in> \<nat>"
proof -
  assume "a \<in> \<nat>" and "0 < a"
  then obtain n where n: "a = real n" by (auto elim: Nats_cases)
  with \<open>0 < a\<close> have "0 < n" by simp
  then have "a - 1 = real (n - 1)" using n by (simp add: of_nat_diff)
  then show ?thesis by simp
qed

lemma updateProjectile_budget:
  "platformsLeft (snd (updateProjectile gr dt ids p g)) = platformsLeft g \<or>
   platformsLeft (snd (updateProjectile gr dt ids p g)) =
     min (count (platform (config g))) (platformsLeft g + bonusReward (features_cfg (config g)))"
proof -
  let ?q = "moveProjectile gr dt p"
  consider (idle) "\<not> active p"
    | (hit) "active p" "\<exists>f\<in>set (features g). crawler_hits ?q f"
    | (wall) "active p" "\<forall>f\<in>set (features g). \<not> crawler_hits ?q f" "vec_x (pos ?q) \<le> 0"
    | (fly) "active p" "\<forall>f\<in>set (features g). \<not> crawler_hits ?q f" "0 < vec_x (pos ?q)"
    by fastforce
  then show ?thesis
  proof cases
    case idle
    then show ?thesis by (simp add: updateProjectile_inactive)
  next
    case hit
    from first_hit_split[OF hit(2)] obtain pre f post where
      "features g = pre @ f # post" "\<forall>f'\<in>set pre. \<not> crawler_hits ?q f'" "crawler_hits ?q f"
      by blast
    with hit(1) show ?thesis
      by (simp add: updateProjectile_consumed[where pre = pre and f = f and post = post]
            addPlatforms_def)
  next
    case wall
    then show ?thesis
      by (simp add: updateProjectile_wall handlePlatformPlacement_frame)
  next
    case fly
    then show ?thesis by (simp add: updateProjectile_flying)
  qed
qed

lemma updateProjectiles_loop_budget:
  assumes "count (platform (config g)) \<in> \<nat>" and "bonusReward (features_cfg (config g)) \<in> \<nat>"
    and "platformsLeft g \<in> \<nat>"
  shows "platformsLeft (snd (updateProjectiles_loop gr dt ids ps g)) \<in> \<nat>"
  using assms
proof (induction ps arbitrary: g)
  case Nil
  then show ?case by simp
next
  case (Cons p ps)
  let ?g1 = "snd (updateProjectile gr dt ids p g)"
  have c: "config ?g1 = config g" by (rule updateProjectile_frame)
  have m: "min (count (platform (config g)))
             (platformsLeft g + bonusReward (features_cfg (config g))) \<in> \<nat>"
    using Cons.prems by (intro Nats_min Nats_add)
  have "platformsLeft ?g1 \<in> \<nat>"
    using updateProjectile_budget[of gr dt ids p g] Cons.prems(3) m by auto
  with Cons.prems c have "platformsLeft (snd (updateProjectiles_loop gr dt ids ps ?g1)) \<in> \<nat>"
    by (intro Cons.IH) simp_all
  then show ?case by (simp only: updateProjectiles_loop_Cons snd_conv)
qed

lemma update_budget:
  assumes "count (platform (config g)) \<in> \<nat>" and "bonusReward (features_cfg (config g)) \<in> \<nat>"
    and "platformsLeft g \<in> \<nat>"
  shows "platformsLeft (update env dt g) \<in> \<nat>"
proof -
  let ?g3 = "updateHero (peak_draw env) dt
             (g\<lparr>time := time g + dt, promptTimer := max 0 (promptTimer g - dt)\<rparr>)"
  have e: "platformsLeft (update_steps env dt g) =
      platformsLeft (updateProjectiles dt (fresh_id env) ?g3)"
    by (simp add: update_steps_def Let_def updateCamera_frame updateHuman_frame)
  have "platformsLeft (updateProjectiles dt (fresh_id env) ?g3) \<in> \<nat>"
    unfolding updateProjectiles_eq
    using updateProjectiles_loop_budget[of ?g3 "gravity (physics (config ?g3)) * (85 / 100)" dt
            "fresh_id env" "projectiles ?g3"] assms
    by (simp add: updateHero_frame)
  with e assms(3) show ?thesis by (simp add: update_eq)
qed

lemma step_config: "config (step e g) = config g"
  by (cases e) (simp_all add: update_eq update_steps_frame throwPlatform_eq addPlatforms_def)

lemma whole_budget_invariant:
  assumes "count (platform (config g)) \<in> \<nat>" and "bonusReward (features_cfg (config g)) \<in> \<nat>"
    and "platformsLeft g \<in> \<nat>"
    and "\<forall>a. AddPlatforms a \<in> set es \<longrightarrow> a \<in> \<nat>"
  shows "platformsLeft (run es g) \<in> \<nat> \<and> 0 \<le> platformsLeft (run es g)"
proof -
  have "platformsLeft (run es g) \<in> \<nat>"
    using assms
  proof (induction es arbitrary: g)
    case Nil
    then show ?case by simp
  next
    case (Cons e es)
    have s: "platformsLeft (step e g) \<in> \<nat>"
    proof (cases e)
      case (Tick env dt)
      with Cons.prems show ?thesis by (simp add: update_budget)
    next
      case (Throw pid u)
      with Cons.prems show ?thesis by (simp add: throwPlatform_eq Nats_pred)
    next
      case (AddPlatforms a)
      with Cons.prems have "a \<in> \<nat>" by simp
      with AddPlatforms Cons.prems show ?thesis
        by (simp add: addPlatforms_def Nats_min)
    qed
    from Cons.prems s have "platformsLeft (run es (step e g)) \<in> \<nat>"
      by (intro Cons.IH) (simp_all add: step_config)
    then show ?case by simp
  qed
  moreover from this obtain n where "platformsLeft (run es g) = real n"
    by (auto elim: Nats_cases)
  ultimately show ?thesis by simp
qed

subsection \<open>Concrete scenarios\<close>

lemma game_half_thrown_tick:
  "mode game_half_thrown = playing"
  "mode (update env_bounce10 (33 / 1000) game_half_thrown) = gameover"
  "platformsLeft (update env_bounce10 (33 / 1000) game_half_thrown) = - 1 / 2"
  "projectiles (update env_bounce10 (33 / 1000) game_half_thrown) = []"
  "human_state (human (update env_bounce10 (33 / 1000) game_half_thrown)) = idle"
  by (simp_all add: game_half_thrown_def cfg_fast_throw_def env_bounce10_def game_defs
        sqrt_9 sqrt_100 cong: let_weak_cong)

lemma game_worried_eval:
  "human_state (human game_worried) = worry"
  "worryTime (human game_worried) = 267 / 500"
  "mode game_worried = playing"
  "length (platforms game_worried) = 2"
  by (simp_all add: game_worried_def cfg_low_threshold_def env_bounce8_def game_defs
        sqrt_9 sqrt_64 cong: let_weak_cong)

lemma game_worried_tick:
  "human_state (human (update env_bounce8 (33 / 1000) game_worried)) = jumping"
  "length (platforms (update env_bounce8 (33 / 1000) game_worried)) = 3"
  by (simp_all add: game_worried_def cfg_low_threshold_def env_bounce8_def game_defs
        sqrt_9 sqrt_64 cong: let_weak_cong)

section \<open>The properties\<close>

text \<open>
  C1 (amended). A tick of a running game ends the run exactly when, after the tick's updates,
  the budget is used up (\<open>platformsLeft \<le> 0\<close>), no projectile is left and the human is
  idle. So a run does not end while a projectile is in flight or while the human is
  jumping or worried, whatever the budget.
\<close>

theorem update_ends_run_iff:
  assumes "mode g = playing"
  shows "mode (update env dt g) = gameover \<longleftrightarrow>
     platformsLeft (update env dt g) \<le> 0 \<and> projectiles (update env dt g) = [] \<and>
     human_state (human (update env dt g)) = idle"
  using assms by (simp add: update_eq update_steps_frame)

theorem update_ends_run_iff_witness:
  "mode game_half_thrown = playing \<and>
   mode (update env_bounce10 (33 / 1000) game_half_thrown) = gameover \<and>
   platformsLeft (update env_bounce10 (33 / 1000) game_half_thrown) \<le> 0"
proof -
  have m: "mode game_half_thrown = playing" by (rule game_half_thrown_tick)
  have r: "platformsLeft (update env_bounce10 (33 / 1000) game_half_thrown) \<le> 0 \<and>
     projectiles (update env_bounce10 (33 / 1000) game_half_thrown) = [] \<and>
     human_state (human (update env_bounce10 (33 / 1000) game_half_thrown)) = idle"
    by (simp add: game_half_thrown_tick)
  from update_ends_run_iff[OF m, of env_bounce10 "33 / 1000"] r m show ?thesis by simp
qed

text \<open>
  C1 as stated, with \<open>platformsLeft = 0\<close>, fails: with a configured count of one half,
  throwing once leaves a budget of minus one half, and the tick that resolves the
  projectile ends the run.
\<close>

theorem update_ends_run_negative_budget:
  "\<not> (mode (update env_bounce10 (33 / 1000) game_half_thrown) = gameover \<longleftrightarrow>
       platformsLeft (update env_bounce10 (33 / 1000) game_half_thrown) = 0 \<and>
       projectiles (update env_bounce10 (33 / 1000) game_half_thrown) = [] \<and>
       human_state (human (update env_bounce10 (33 / 1000) game_half_thrown)) = idle)"
  by (simp add: game_half_thrown_tick)

text \<open>
  C8. \<^verbatim>\<open>addPlatforms(a)\<close> sets the budget to the smaller of the configured count and
  the old budget plus \<open>a\<close>, so the budget does not exceed the configured count afterwards.
\<close>

theorem addPlatforms_clamped:
  "platformsLeft (addPlatforms a g) = min (count (platform (config g))) (platformsLeft g + a) \<and>
   platformsLeft (addPlatforms a g) \<le> count (platform (config (addPlatforms a g)))"
  by (simp add: addPlatforms_def)

text \<open>
  C9. The score never decreases along a run of ticks, throws and budget additions, and a
  tick of a running game sets it to the larger of the old score and the human's height.
\<close>

theorem score_monotone:
  "score g \<le> score (run es g) \<and>
   score (update env dt g) =
     (if mode g = playing then max (score g) (human_y (human (update env dt g))) else score g)"
  using run_score[of g es] update_score[of env dt g] by simp

text \<open>
  C6. The search returns a qualifying platform of the greatest height among the
  qualifying ones, and none exactly when no platform qualifies. With platforms at
  heights 2, 3.5 and 5, the human at height 1 and a threshold of 2 it returns the one at 2.
\<close>

theorem findReachablePlatform_highest:
  "(case findReachablePlatform g of
      None \<Rightarrow> \<forall>p\<in>set (platforms g). \<not> qualifies g p
    | Some r \<Rightarrow> r \<in> set (platforms g) \<and> qualifies g r \<and>
                (\<forall>p\<in>set (platforms g). qualifies g p \<longrightarrow> plat_y p \<le> plat_y r))
   \<and> (plat_y ` set (platforms g) = {2, 7 / 2, 5} \<and> human_y (human g) = 1 \<and>
        jumpThreshold (human_cfg (config g)) = 2
        \<longrightarrow> (\<exists>r. findReachablePlatform g = Some r \<and> plat_y r = 2))"
proof -
  note general = findReachablePlatform_spec[of g]
  have example: "\<exists>r. findReachablePlatform g = Some r \<and> plat_y r = 2"
    if ys: "plat_y ` set (platforms g) = {2, 7 / 2, 5}" and h: "human_y (human g) = 1"
      and t: "jumpThreshold (human_cfg (config g)) = 2"
  proof -
    from ys have "(2::real) \<in> plat_y ` set (platforms g)" by simp
    then obtain p2 where p2: "p2 \<in> set (platforms g)" "plat_y p2 = 2"
      by (auto simp: image_iff)
    then have q2: "qualifies g p2" by (simp add: qualifies_def h t)
    show ?thesis
    proof (cases "findReachablePlatform g")
      case None
      with general p2 q2 show ?thesis by auto
    next
      case (Some r)
      with general have r: "r \<in> set (platforms g)" "qualifies g r" by auto
      from r(1) ys have "plat_y r \<in> {2, 7 / 2, 5}" by blast
      moreover from r(2) have "plat_y r \<le> 3" by (simp add: qualifies_def h t)
      ultimately have "plat_y r = 2" by auto
      with Some show ?thesis by simp
    qed
  qed
  from general example show ?thesis by blast
qed

theorem findReachablePlatform_highest_witness:
  "findReachablePlatform game_three_platforms = Some \<lparr>plat_id = 2, plat_y = 2, createdAt = 0\<rparr> \<and>
   \<lparr>plat_id = 2, plat_y = 2, createdAt = 0\<rparr> \<in> set (platforms game_three_platforms) \<and>
   qualifies game_three_platforms \<lparr>plat_id = 2, plat_y = 2, createdAt = 0\<rparr> \<and>
   \<not> qualifies game_three_platforms \<lparr>plat_id = 3, plat_y = 7 / 2, createdAt = 0\<rparr>"
proof -
  have e: "findReachablePlatform game_three_platforms =
      Some \<lparr>plat_id = 2, plat_y = 2, createdAt = 0\<rparr>"
    by (simp add: game_three_platforms_def game_default_def game_defs)
  have q: "\<not> qualifies game_three_platforms \<lparr>plat_id = 3, plat_y = 7 / 2, createdAt = 0\<rparr>"
    by (simp add: qualifies_def game_three_platforms_def game_default_def game_defs)
  from findReachablePlatform_highest[of game_three_platforms] e q show ?thesis by simp
qed

text \<open>
  C5. When the hero touches the ground in \<^verbatim>\<open>updateHero\<close>, the apex implied by the
  new launch velocity lies between \<open>max(M, H+P-R)\<close> and \<open>max(M, H+P+R)\<close> for every
  draw \<open>u\<close> in \<open>[0, 1)\<close>, provided gravity is positive, \<open>R\<close> is not negative and
  the lower end is at least a tenth above the ground.
\<close>

theorem updateHero_apex_interval:
  assumes contact: "vec_y (hero_pos (hero g)) +
           (vec_y (hero_vel (hero g)) - gravity (physics (config g)) * dt) * dt \<le> heroGroundY g"
    and grav: "0 < gravity (physics (config g))"
    and R: "0 \<le> peakRandomness (hero_cfg (config g))"
    and u: "0 \<le> u" "u < 1"
    and low: "heroGroundY g + 1 / 10 \<le>
           max (minPeak (hero_cfg (config g)))
               (human_y (human g) + peakOffset (hero_cfg (config g))
                - peakRandomness (hero_cfg (config g)))"
  shows "max (minPeak (hero_cfg (config g)))
             (human_y (human g) + peakOffset (hero_cfg (config g))
              - peakRandomness (hero_cfg (config g)))
         \<le> impliedApex g (vec_y (hero_vel (hero (updateHero u dt g))))
       \<and> impliedApex g (vec_y (hero_vel (hero (updateHero u dt g))))
         \<le> max (minPeak (hero_cfg (config g)))
               (human_y (human g) + peakOffset (hero_cfg (config g))
                + peakRandomness (hero_cfg (config g)))"
proof -
  define M where "M = minPeak (hero_cfg (config g))"
  define B where "B = human_y (human g) + peakOffset (hero_cfg (config g))"
  define R where "R = peakRandomness (hero_cfg (config g))"
  define G where "G = gravity (physics (config g))"
  define r where "r = randRange u (- R) R"
  define apex where "apex = max M (B + r)"
  have rb: "- R \<le> r" "r \<le> R"
    using randRange_bounds[of R u] assms(3-5) by (simp_all add: r_def R_def)
  have lo: "max M (B - R) \<le> apex" using rb by (simp add: apex_def max_def)
  have hi: "apex \<le> max M (B + R)" using rb by (simp add: apex_def max_def)
  have ground: "heroGroundY g + 1 / 10 \<le> apex"
    using low lo unfolding M_def B_def R_def by linarith
  have v: "vec_y (hero_vel (hero (updateHero u dt g))) =
      sqrt (2 * G * max (1 / 10) (apex - heroGroundY g))"
    using updateHero_contact_vel[OF contact, of u]
    by (simp add: G_def apex_def M_def B_def r_def R_def)
  have h: "max (1 / 10) (apex - heroGroundY g) = apex - heroGroundY g"
    using ground by simp
  have nonneg: "0 \<le> 2 * G * (apex - heroGroundY g)"
    using grav ground by (simp add: G_def)
  have "impliedApex g (vec_y (hero_vel (hero (updateHero u dt g)))) =
      heroGroundY g + (sqrt (2 * G * (apex - heroGroundY g)))\<^sup>2 / (2 * G)"
    by (simp add: impliedApex_def v h G_def)
  also have "\<dots> = heroGroundY g + (2 * G * (apex - heroGroundY g)) / (2 * G)"
    using nonneg by simp
  also have "\<dots> = apex" using grav by (simp add: G_def)
  finally have "impliedApex g (vec_y (hero_vel (hero (updateHero u dt g)))) = apex" .
  with lo hi show ?thesis by (simp add: M_def B_def R_def)
qed

theorem updateHero_apex_interval_witness:
  "7 / 2 \<le> impliedApex game_default
              (vec_y (hero_vel (hero (updateHero (1 / 2) (33 / 1000) game_default)))) \<and>
   impliedApex game_default
     (vec_y (hero_vel (hero (updateHero (1 / 2) (33 / 1000) game_default)))) \<le> 9 / 2"
proof -
  have c: "vec_y (hero_pos (hero game_default)) +
      (vec_y (hero_vel (hero game_default)) - gravity (physics (config game_default)) * (33 / 1000))
        * (33 / 1000) \<le> heroGroundY game_default"
    by (simp add: game_default_def game_defs)
  have g: "0 < gravity (physics (config game_default))"
    by (simp add: game_default_def game_defs)
  have R: "0 \<le> peakRandomness (hero_cfg (config game_default))"
    by (simp add: game_default_def game_defs)
  have l: "heroGroundY game_default + 1 / 10 \<le>
           max (minPeak (hero_cfg (config game_default)))
               (human_y (human game_default) + peakOffset (hero_cfg (config game_default))
                - peakRandomness (hero_cfg (config game_default)))"
    by (simp add: game_default_def game_defs)
  have lo: "max (minPeak (hero_cfg (config game_default)))
               (human_y (human game_default) + peakOffset (hero_cfg (config game_default))
                - peakRandomness (hero_cfg (config game_default))) = 7 / 2"
    by (simp add: game_default_def game_defs)
  have hi: "max (minPeak (hero_cfg (config game_default)))
               (human_y (human game_default) + peakOffset (hero_cfg (config game_default))
                + peakRandomness (hero_cfg (config game_default))) = 9 / 2"
    by (simp add: game_default_def game_defs)
  from updateHero_apex_interval[OF c g R _ _ l, of "1 / 2"] show ?thesis
    unfolding lo hi by simp
qed

text \<open>
  C2 (amended). A jump never begins while a jump is in progress. It can begin while the
  human is worried: \<^verbatim>\<open>handlePlatformPlacement\<close> tries \<^verbatim>\<open>attemptHumanJump\<close> for
  every human that is not jumping, so a platform placed within reach of a worried human
  starts a jump at once. Within one tick a worried human ends up jumping only if a platform
  was placed in that tick or the worry timer ran out in it.
\<close>

theorem jump_begins_unless_jumping:
  "(fst (attemptHumanJump g) \<longleftrightarrow>
      human_state (human g) \<noteq> jumping \<and> findReachablePlatform g \<noteq> None)
   \<and> (human_state (human g) = jumping \<longrightarrow>
        snd (attemptHumanJump g) = g \<and> handlePlatformPlacement y g = g)
   \<and> (human_state (human g) = worry \<and> findReachablePlatform g \<noteq> None \<longrightarrow>
        human_state (human (handlePlatformPlacement y g)) = jumping)
   \<and> (mode g = playing \<and> human_state (human g) = worry \<and>
        human_state (human (update env dt g)) = jumping \<longrightarrow>
        length (platforms g) < length (platforms (update env dt g)) \<or>
        worryTime (human g) \<le> dt)"
proof -
  have a: "fst (attemptHumanJump g) \<longleftrightarrow>
      human_state (human g) \<noteq> jumping \<and> findReachablePlatform g \<noteq> None"
    by (simp add: attemptHumanJump_def split: option.splits)
  have b: "snd (attemptHumanJump g) = g \<and> handlePlatformPlacement y g = g"
    if "human_state (human g) = jumping"
    using that by (simp add: attemptHumanJump_def handlePlatformPlacement_def)
  have c: "human_state (human (handlePlatformPlacement y g)) = jumping"
    if "human_state (human g) = worry" "findReachablePlatform g \<noteq> None"
    using that by (auto simp: attemptHumanJump_def handlePlatformPlacement_def)
  from a b c tick_worry_to_jumping[of g env dt] show ?thesis by blast
qed

theorem jump_begins_unless_jumping_witness:
  "mode game_worried = playing \<and> human_state (human game_worried) = worry \<and>
   human_state (human (update env_bounce8 (33 / 1000) game_worried)) = jumping \<and>
   length (platforms game_worried) < length (platforms (update env_bounce8 (33 / 1000) game_worried))"
proof -
  have t: "\<not> worryTime (human game_worried) \<le> 33 / 1000"
    by (simp add: game_worried_eval)
  from jump_begins_unless_jumping[of game_worried 0 env_bounce8 "33 / 1000"] t
  show ?thesis by (simp add: game_worried_eval game_worried_tick)
qed

text \<open>
  C2 as stated fails. In the run below the human is worried, with more than half a second
  of worry left, when a second platform sticks to the wall within reach: the tick takes
  the state from worry to jumping with no idle state between.
\<close>

theorem placement_jumps_from_worry:
  "human_state (human game_worried) = worry \<and>
   33 / 1000 < worryTime (human game_worried) \<and>
   human_state (human (update env_bounce8 (33 / 1000) game_worried)) = jumping"
  by (simp add: game_worried_eval game_worried_tick)

text \<open>
  C10. In one call of \<^verbatim>\<open>updateHuman\<close>, a jump that completes leaves the human idle
  at the target height, and so does a worry whose timer runs out (at the height it has);
  the idle branch of the same call then searches for a target from there, and if one is
  found the call returns with the human jumping again. A jump completes, that is the state
  after the jumping branch is idle, exactly when the progress computed in the call reaches
  \<open>1\<close>, whether the call started in the preparation phase or after it.
\<close>

theorem updateHuman_rejumps_same_call:
  "(human_state (human g) = jumping \<longrightarrow>
      (human_state (human (updateHuman_jumping dt g)) = idle \<longleftrightarrow> jumpCompletes dt g))
   \<and> (jumpCompletes dt g \<longrightarrow>
      updateHuman_jumping dt g =
        g\<lparr>human := (human g)\<lparr>jumpTime :=
                                (if jumpPhase (human g) = prep
                                 then jumpPhaseTime (human g) + dt
                                      - clipDuration HUMAN_ANIM_jump_prep
                                 else jumpTime (human g) + dt),
                               human_state := idle, jumpPhase := land, jumpPhaseTime := 0,
                               human_y := jumpTarget (human g)\<rparr>\<rparr> \<and>
      updateHuman dt g = snd (attemptHumanJump (updateHuman_jumping dt g)) \<and>
      (\<forall>target.
         findReachablePlatform (g\<lparr>human := (human g)\<lparr>human_y := jumpTarget (human g)\<rparr>\<rparr>)
           = Some target \<longrightarrow>
         human_state (human (updateHuman dt g)) = jumping \<and>
         jumpStart (human (updateHuman dt g)) = jumpTarget (human g) \<and>
         jumpTarget (human (updateHuman dt g)) = plat_y target) \<and>
      (findReachablePlatform (g\<lparr>human := (human g)\<lparr>human_y := jumpTarget (human g)\<rparr>\<rparr>) = None
         \<longrightarrow> human_state (human (updateHuman dt g)) = idle \<and>
             human_y (human (updateHuman dt g)) = jumpTarget (human g)))
   \<and> (human_state (human g) = worry \<and> worryTime (human g) \<le> dt
      \<longrightarrow>
      updateHuman dt g =
        snd (attemptHumanJump (g\<lparr>human := (human g)\<lparr>worryTime := 0, human_state := idle\<rparr>\<rparr>)) \<and>
      (\<forall>target.
         findReachablePlatform g = Some target \<longrightarrow>
         human_state (human (updateHuman dt g)) = jumping \<and>
         jumpStart (human (updateHuman dt g)) = human_y (human g) \<and>
         jumpTarget (human (updateHuman dt g)) = plat_y target) \<and>
      (findReachablePlatform g = None \<longrightarrow> human_state (human (updateHuman dt g)) = idle))
   \<and> (0 < d \<longrightarrow> (1 \<le> jumpProgress a d \<longleftrightarrow> d \<le> a))
   \<and> (d = 0 \<longrightarrow> (1 \<le> jumpProgress a d \<longleftrightarrow> 0 < a))"
proof -
  have find_cong: "findReachablePlatform g1 = findReachablePlatform g2"
    if "platforms g1 = platforms g2" "human_y (human g1) = human_y (human g2)"
       "config g1 = config g2" for g1 g2 :: Game
  proof -
    have "findReachable_loop g1 ps c = findReachable_loop g2 ps c" for ps c
      by (induction ps arbitrary: c) (simp_all add: that Let_def)
    then show ?thesis by (simp add: findReachablePlatform_def that)
  qed
  let ?L = "g\<lparr>human := (human g)\<lparr>jumpTime :=
                                (if jumpPhase (human g) = prep
                                 then jumpPhaseTime (human g) + dt
                                      - clipDuration HUMAN_ANIM_jump_prep
                                 else jumpTime (human g) + dt),
                               human_state := idle, jumpPhase := land, jumpPhaseTime := 0,
                               human_y := jumpTarget (human g)\<rparr>\<rparr>"
  let ?T = "g\<lparr>human := (human g)\<lparr>human_y := jumpTarget (human g)\<rparr>\<rparr>"
  let ?C = "g\<lparr>human := (human g)\<lparr>worryTime := 0, human_state := idle\<rparr>\<rparr>"
  have fL: "findReachablePlatform ?L = findReachablePlatform ?T"
    by (rule find_cong) simp_all
  have fC: "findReachablePlatform ?C = findReachablePlatform g"
    by (rule find_cong) simp_all
  have L1: "human_state (human (snd (attemptHumanJump ?L))) = jumping \<and>
         jumpStart (human (snd (attemptHumanJump ?L))) = jumpTarget (human g) \<and>
         jumpTarget (human (snd (attemptHumanJump ?L))) = plat_y target"
    if "findReachablePlatform ?T = Some target" for target
    using that fL by (simp add: attemptHumanJump_def)
  have L2: "human_state (human (snd (attemptHumanJump ?L))) = idle \<and>
         human_y (human (snd (attemptHumanJump ?L))) = jumpTarget (human g)"
    if "findReachablePlatform ?T = None"
    using that fL by (simp add: attemptHumanJump_def)
  have C1: "human_state (human (snd (attemptHumanJump ?C))) = jumping \<and>
         jumpStart (human (snd (attemptHumanJump ?C))) = human_y (human g) \<and>
         jumpTarget (human (snd (attemptHumanJump ?C))) = plat_y target"
    if "findReachablePlatform g = Some target" for target
    using that fC by (simp add: attemptHumanJump_def)
  have C2: "human_state (human (snd (attemptHumanJump ?C))) = idle"
    if "findReachablePlatform g = None"
    using that fC by (simp add: attemptHumanJump_def)
  have part0: "human_state (human (updateHuman_jumping dt g)) = idle \<longleftrightarrow> jumpCompletes dt g"
    if "human_state (human g) = jumping"
    using that by (rule updateHuman_jumping_completes)
  have part1:
    "updateHuman_jumping dt g = ?L \<and>
      updateHuman dt g = snd (attemptHumanJump (updateHuman_jumping dt g)) \<and>
      (\<forall>target.
         findReachablePlatform ?T = Some target \<longrightarrow>
         human_state (human (updateHuman dt g)) = jumping \<and>
         jumpStart (human (updateHuman dt g)) = jumpTarget (human g) \<and>
         jumpTarget (human (updateHuman dt g)) = plat_y target) \<and>
      (findReachablePlatform ?T = None
         \<longrightarrow> human_state (human (updateHuman dt g)) = idle \<and>
             human_y (human (updateHuman dt g)) = jumpTarget (human g))"
    if c: "jumpCompletes dt g"
  proof -
    note j = updateHuman_jumping_landed[OF c]
    have e: "updateHuman dt g = snd (attemptHumanJump ?L)"
      using updateHuman_landing[OF c] unfolding j .
    show ?thesis unfolding e j using L1 L2 by blast
  qed
  have part2:
    "updateHuman dt g = snd (attemptHumanJump ?C) \<and>
      (\<forall>target.
         findReachablePlatform g = Some target \<longrightarrow>
         human_state (human (updateHuman dt g)) = jumping \<and>
         jumpStart (human (updateHuman dt g)) = human_y (human g) \<and>
         jumpTarget (human (updateHuman dt g)) = plat_y target) \<and>
      (findReachablePlatform g = None \<longrightarrow> human_state (human (updateHuman dt g)) = idle)"
    if c: "human_state (human g) = worry \<and> worryTime (human g) \<le> dt"
  proof -
    from c have e: "updateHuman dt g = snd (attemptHumanJump ?C)"
      by (intro updateHuman_calms) simp_all
    show ?thesis unfolding e using C1 C2 by blast
  qed
  have part3: "0 < d \<longrightarrow> (1 \<le> jumpProgress a d \<longleftrightarrow> d \<le> a)"
    "d = 0 \<longrightarrow> (1 \<le> jumpProgress a d \<longleftrightarrow> 0 < a)"
    using jumpProgress_reaches_1[of d a] by blast+
  show ?thesis
  proof (intro conjI)
    show "human_state (human g) = jumping \<longrightarrow>
      (human_state (human (updateHuman_jumping dt g)) = idle \<longleftrightarrow> jumpCompletes dt g)"
      using part0 by blast
    show "jumpCompletes dt g \<longrightarrow>
      updateHuman_jumping dt g = ?L \<and>
      updateHuman dt g = snd (attemptHumanJump (updateHuman_jumping dt g)) \<and>
      (\<forall>target.
         findReachablePlatform ?T = Some target \<longrightarrow>
         human_state (human (updateHuman dt g)) = jumping \<and>
         jumpStart (human (updateHuman dt g)) = jumpTarget (human g) \<and>
         jumpTarget (human (updateHuman dt g)) = plat_y target) \<and>
      (findReachablePlatform ?T = None
         \<longrightarrow> human_state (human (updateHuman dt g)) = idle \<and>
             human_y (human (updateHuman dt g)) = jumpTarget (human g))"
      using part1 by (rule impI)
    show "human_state (human g) = worry \<and> worryTime (human g) \<le> dt \<longrightarrow>
      updateHuman dt g = snd (attemptHumanJump ?C) \<and>
      (\<forall>target.
         findReachablePlatform g = Some target \<longrightarrow>
         human_state (human (updateHuman dt g)) = jumping \<and>
         jumpStart (human (updateHuman dt g)) = human_y (human g) \<and>
         jumpTarget (human (updateHuman dt g)) = plat_y target) \<and>
      (findReachablePlatform g = None \<longrightarrow> human_state (human (updateHuman dt g)) = idle)"
      using part2 by (rule impI)
    show "0 < d \<longrightarrow> (1 \<le> jumpProgress a d \<longleftrightarrow> d \<le> a)" by (rule part3)
    show "d = 0 \<longrightarrow> (1 \<le> jumpProgress a d \<longleftrightarrow> 0 < a)" by (rule part3)
  qed
qed

text \<open>
  Three landings that jump again in the same call: after the preparation phase with the
  default duration, and out of the preparation phase with a duration of a hundredth of a
  second and with a duration of zero.
\<close>

theorem updateHuman_rejumps_same_call_witness:
  "(jumpCompletes (33 / 1000) game_landing \<and>
    human_state (human (updateHuman (33 / 1000) game_landing)) = jumping \<and>
    jumpStart (human (updateHuman (33 / 1000) game_landing)) = 3 \<and>
    jumpTarget (human (updateHuman (33 / 1000) game_landing)) = 9 / 2)
   \<and> (jumpPhase (human (game_in_prep (1 / 100))) = prep \<and>
      jumpCompletes (33 / 1000) (game_in_prep (1 / 100)) \<and>
      human_state (human (updateHuman (33 / 1000) (game_in_prep (1 / 100)))) = jumping \<and>
      jumpStart (human (updateHuman (33 / 1000) (game_in_prep (1 / 100)))) = 3 \<and>
      jumpTarget (human (updateHuman (33 / 1000) (game_in_prep (1 / 100)))) = 9 / 2)
   \<and> (jumpDuration (human_cfg (config (game_in_prep 0))) = 0 \<and>
      jumpCompletes (33 / 1000) (game_in_prep 0) \<and>
      human_state (human (updateHuman (33 / 1000) (game_in_prep 0))) = jumping \<and>
      jumpStart (human (updateHuman (33 / 1000) (game_in_prep 0))) = 3 \<and>
      jumpTarget (human (updateHuman (33 / 1000) (game_in_prep 0))) = 9 / 2)"
proof -
  have again: "human_state (human (updateHuman (33 / 1000) G)) = jumping \<and>
      jumpStart (human (updateHuman (33 / 1000) G)) = 3 \<and>
      jumpTarget (human (updateHuman (33 / 1000) G)) = 9 / 2"
    if c: "jumpCompletes (33 / 1000) G"
      and f: "findReachablePlatform (G\<lparr>human := (human G)\<lparr>human_y := jumpTarget (human G)\<rparr>\<rparr>)
                = Some \<lparr>plat_id = 3, plat_y = 9 / 2, createdAt = 0\<rparr>"
      and t: "jumpTarget (human G) = 3" for G
  proof -
    from updateHuman_rejumps_same_call[of G "33 / 1000" 1 0] c
    have "\<forall>target.
         findReachablePlatform (G\<lparr>human := (human G)\<lparr>human_y := jumpTarget (human G)\<rparr>\<rparr>)
           = Some target \<longrightarrow>
         human_state (human (updateHuman (33 / 1000) G)) = jumping \<and>
         jumpStart (human (updateHuman (33 / 1000) G)) = jumpTarget (human G) \<and>
         jumpTarget (human (updateHuman (33 / 1000) G)) = plat_y target"
      by blast
    with f have "human_state (human (updateHuman (33 / 1000) G)) = jumping \<and>
         jumpStart (human (updateHuman (33 / 1000) G)) = jumpTarget (human G) \<and>
         jumpTarget (human (updateHuman (33 / 1000) G)) =
           plat_y \<lparr>plat_id = 3, plat_y = 9 / 2, createdAt = 0\<rparr>"
      by blast
    with t show ?thesis by simp
  qed
  have c1: "jumpCompletes (33 / 1000) game_landing"
    by (simp add: jumpCompletes_def game_landing_def game_default_def game_defs)
  have f1: "findReachablePlatform
      (game_landing\<lparr>human := (human game_landing)\<lparr>human_y := jumpTarget (human game_landing)\<rparr>\<rparr>)
      = Some \<lparr>plat_id = 3, plat_y = 9 / 2, createdAt = 0\<rparr>"
    by (simp add: game_landing_def game_default_def game_defs)
  have t1: "jumpTarget (human game_landing) = 3"
    by (simp add: game_landing_def)
  have c2: "jumpCompletes (33 / 1000) (game_in_prep d)" if "d = 1 / 100 \<or> d = 0" for d
    using that
    by (auto simp: jumpCompletes_def game_in_prep_def game_default_def game_defs)
  have f2: "findReachablePlatform
      (game_in_prep d\<lparr>human := (human (game_in_prep d))
                                 \<lparr>human_y := jumpTarget (human (game_in_prep d))\<rparr>\<rparr>)
      = Some \<lparr>plat_id = 3, plat_y = 9 / 2, createdAt = 0\<rparr>" for d
    by (simp add: game_in_prep_def game_default_def game_defs)
  have t2: "jumpTarget (human (game_in_prep d)) = 3"
    "jumpPhase (human (game_in_prep d)) = prep"
    "jumpDuration (human_cfg (config (game_in_prep d))) = d" for d
    by (simp_all add: game_in_prep_def)
  from again[OF c1 f1 t1] again[OF c2 f2 t2(1), of "1 / 100"] again[OF c2 f2 t2(1), of 0]
    c1 c2[of "1 / 100"] c2[of 0] t2(2,3)
  show ?thesis by simp
qed

text \<open>
  C7. One pass of \<^verbatim>\<open>updateProjectiles\<close> gives every active projectile exactly one of
  four outcomes, decided by its position \<open>q\<close> after the integration step. Consumed by the
  first crawler it hits: it is deactivated, that crawler alone changes, the budget is
  raised once, and no platform is pushed and the human is untouched. Not consumed and at
  or behind the wall (\<open>x \<le> 0\<close>): it is deactivated and exactly one platform, at height
  \<open>max(0, y)\<close>, is pushed. Not consumed, in front of the wall and outside the vertical
  window: it is deactivated and the game is unchanged. Otherwise it stays active and the
  game is unchanged.

  The pass is these steps in a row: it takes the projectiles in their order, each once,
  the first in the game as the pass found it and each next one in the game the step
  before left. The platforms after the pass are the old ones followed by one platform for
  each projectile whose outcome was to stick, and by no other; the projectiles after the
  pass are those whose outcome was to fly on, moved.
\<close>

theorem updateProjectile_single_outcome:
  "(active p \<longrightarrow>
    (((\<exists>f\<in>set (features g). crawler_hits (moveProjectile gr dt p) f) \<longrightarrow>
       \<not> active (fst (updateProjectile gr dt ids p g)) \<and>
       platforms (snd (updateProjectile gr dt ids p g)) = platforms g \<and>
       human (snd (updateProjectile gr dt ids p g)) = human g \<and>
       platformsLeft (snd (updateProjectile gr dt ids p g)) =
         min (count (platform (config g)))
             (platformsLeft g + bonusReward (features_cfg (config g))) \<and>
       (\<exists>pre f post.
          features g = pre @ f # post \<and>
          (\<forall>f'\<in>set pre. \<not> crawler_hits (moveProjectile gr dt p) f') \<and>
          crawler_hits (moveProjectile gr dt p) f \<and>
          features (snd (updateProjectile gr dt ids p g)) = pre @ crawler_struck g f # post))
    \<and> ((\<forall>f\<in>set (features g). \<not> crawler_hits (moveProjectile gr dt p) f) \<and>
        vec_x (pos (moveProjectile gr dt p)) \<le> 0 \<longrightarrow>
       \<not> active (fst (updateProjectile gr dt ids p g)) \<and>
       platforms (snd (updateProjectile gr dt ids p g)) =
         platforms g @ [\<lparr>plat_id = ids (length (platforms g)),
                          plat_y = max 0 (vec_y (pos (moveProjectile gr dt p))),
                          createdAt = time g\<rparr>] \<and>
       features (snd (updateProjectile gr dt ids p g)) = features g \<and>
       platformsLeft (snd (updateProjectile gr dt ids p g)) = platformsLeft g)
    \<and> ((\<forall>f\<in>set (features g). \<not> crawler_hits (moveProjectile gr dt p) f) \<and>
        0 < vec_x (pos (moveProjectile gr dt p)) \<and>
        (vec_y (pos (moveProjectile gr dt p)) < - 2 \<or>
         cameraY g + viewHeightMeters g + 6 < vec_y (pos (moveProjectile gr dt p))) \<longrightarrow>
       \<not> active (fst (updateProjectile gr dt ids p g)) \<and>
       snd (updateProjectile gr dt ids p g) = g)
    \<and> ((\<forall>f\<in>set (features g). \<not> crawler_hits (moveProjectile gr dt p) f) \<and>
        0 < vec_x (pos (moveProjectile gr dt p)) \<and>
        \<not> (vec_y (pos (moveProjectile gr dt p)) < - 2 \<or>
           cameraY g + viewHeightMeters g + 6 < vec_y (pos (moveProjectile gr dt p))) \<longrightarrow>
       active (fst (updateProjectile gr dt ids p g)) \<and>
       snd (updateProjectile gr dt ids p g) = g)
    \<and> pos (fst (updateProjectile gr dt ids p g)) = pos (moveProjectile gr dt p)
    \<and> length (platforms (snd (updateProjectile gr dt ids p g))) \<le> Suc (length (platforms g))))
   \<and> fst (updateProjectile gr dt ids p g) =
       (case outcome gr dt p g of
          Skipped \<Rightarrow> p
        | Flying \<Rightarrow> moveProjectile gr dt p
        | Consumed \<Rightarrow> (moveProjectile gr dt p)\<lparr>active := False\<rparr>
        | Stuck \<Rightarrow> (moveProjectile gr dt p)\<lparr>active := False\<rparr>
        | Lost \<Rightarrow> (moveProjectile gr dt p)\<lparr>active := False\<rparr>)
   \<and> platforms (snd (updateProjectile gr dt ids p g)) =
       platforms g @ (if outcome gr dt p g = Stuck then [stuckPlatform gr dt ids p g] else [])
   \<and> length (platforms (updateProjectiles dt ids g))
         \<le> length (platforms g) + length (filter active (projectiles g))
    \<and> (\<forall>p'\<in>set (projectiles (updateProjectiles dt ids g)). active p')
   \<and> (gr = gravity (physics (config g)) * (85 / 100) \<longrightarrow>
        map fst (passTrace gr dt ids (projectiles g) g) = projectiles g \<and>
        (projectiles g \<noteq> [] \<longrightarrow> snd (passTrace gr dt ids (projectiles g) g ! 0) = g) \<and>
        (\<forall>i. Suc i < length (projectiles g) \<longrightarrow>
           snd (passTrace gr dt ids (projectiles g) g ! Suc i) =
             snd (updateProjectile gr dt ids
                    (fst (passTrace gr dt ids (projectiles g) g ! i))
                    (snd (passTrace gr dt ids (projectiles g) g ! i)))) \<and>
        updateProjectiles dt ids g =
          (foldl (\<lambda>s p'. snd (updateProjectile gr dt ids p' s)) g (projectiles g))
            \<lparr>projectiles :=
               filter active
                 (map (\<lambda>(p', s). fst (updateProjectile gr dt ids p' s))
                    (passTrace gr dt ids (projectiles g) g))\<rparr> \<and>
        platforms (updateProjectiles dt ids g) =
          platforms g @
          concat (map (\<lambda>(p', s). if outcome gr dt p' s = Stuck
                                   then [stuckPlatform gr dt ids p' s] else [])
                    (passTrace gr dt ids (projectiles g) g)) \<and>
        projectiles (updateProjectiles dt ids g) =
          map (\<lambda>(p', s). moveProjectile gr dt p')
            (filter (\<lambda>(p', s). outcome gr dt p' s = Flying)
               (passTrace gr dt ids (projectiles g) g)))"
proof -
  have body: "((\<exists>f\<in>set (features g). crawler_hits (moveProjectile gr dt p) f) \<longrightarrow>
       \<not> active (fst (updateProjectile gr dt ids p g)) \<and>
       platforms (snd (updateProjectile gr dt ids p g)) = platforms g \<and>
       human (snd (updateProjectile gr dt ids p g)) = human g \<and>
       platformsLeft (snd (updateProjectile gr dt ids p g)) =
         min (count (platform (config g)))
             (platformsLeft g + bonusReward (features_cfg (config g))) \<and>
       (\<exists>pre f post.
          features g = pre @ f # post \<and>
          (\<forall>f'\<in>set pre. \<not> crawler_hits (moveProjectile gr dt p) f') \<and>
          crawler_hits (moveProjectile gr dt p) f \<and>
          features (snd (updateProjectile gr dt ids p g)) = pre @ crawler_struck g f # post))
    \<and> ((\<forall>f\<in>set (features g). \<not> crawler_hits (moveProjectile gr dt p) f) \<and>
        vec_x (pos (moveProjectile gr dt p)) \<le> 0 \<longrightarrow>
       \<not> active (fst (updateProjectile gr dt ids p g)) \<and>
       platforms (snd (updateProjectile gr dt ids p g)) =
         platforms g @ [\<lparr>plat_id = ids (length (platforms g)),
                          plat_y = max 0 (vec_y (pos (moveProjectile gr dt p))),
                          createdAt = time g\<rparr>] \<and>
       features (snd (updateProjectile gr dt ids p g)) = features g \<and>
       platformsLeft (snd (updateProjectile gr dt ids p g)) = platformsLeft g)
    \<and> ((\<forall>f\<in>set (features g). \<not> crawler_hits (moveProjectile gr dt p) f) \<and>
        0 < vec_x (pos (moveProjectile gr dt p)) \<and>
        (vec_y (pos (moveProjectile gr dt p)) < - 2 \<or>
         cameraY g + viewHeightMeters g + 6 < vec_y (pos (moveProjectile gr dt p))) \<longrightarrow>
       \<not> active (fst (updateProjectile gr dt ids p g)) \<and>
       snd (updateProjectile gr dt ids p g) = g)
    \<and> ((\<forall>f\<in>set (features g). \<not> crawler_hits (moveProjectile gr dt p) f) \<and>
        0 < vec_x (pos (moveProjectile gr dt p)) \<and>
        \<not> (vec_y (pos (moveProjectile gr dt p)) < - 2 \<or>
           cameraY g + viewHeightMeters g + 6 < vec_y (pos (moveProjectile gr dt p))) \<longrightarrow>
       active (fst (updateProjectile gr dt ids p g)) \<and>
       snd (updateProjectile gr dt ids p g) = g)
    \<and> pos (fst (updateProjectile gr dt ids p g)) = pos (moveProjectile gr dt p)
    \<and> length (platforms (snd (updateProjectile gr dt ids p g))) \<le> Suc (length (platforms g))"
    if "active p"
    using updateProjectile_outcomes[OF that, of g gr dt ids] by blast
  note by_outcome = updateProjectile_by_outcome[of gr dt ids p g]
  note bounds = updateProjectiles_platforms(2,4)[of dt ids g]
  have pass: "        map fst (passTrace gr dt ids (projectiles g) g) = projectiles g \<and>
        (projectiles g \<noteq> [] \<longrightarrow> snd (passTrace gr dt ids (projectiles g) g ! 0) = g) \<and>
        (\<forall>i. Suc i < length (projectiles g) \<longrightarrow>
           snd (passTrace gr dt ids (projectiles g) g ! Suc i) =
             snd (updateProjectile gr dt ids
                    (fst (passTrace gr dt ids (projectiles g) g ! i))
                    (snd (passTrace gr dt ids (projectiles g) g ! i)))) \<and>
        updateProjectiles dt ids g =
          (foldl (\<lambda>s p'. snd (updateProjectile gr dt ids p' s)) g (projectiles g))
            \<lparr>projectiles :=
               filter active
                 (map (\<lambda>(p', s). fst (updateProjectile gr dt ids p' s))
                    (passTrace gr dt ids (projectiles g) g))\<rparr> \<and>
        platforms (updateProjectiles dt ids g) =
          platforms g @
          concat (map (\<lambda>(p', s). if outcome gr dt p' s = Stuck
                                   then [stuckPlatform gr dt ids p' s] else [])
                    (passTrace gr dt ids (projectiles g) g)) \<and>
        projectiles (updateProjectiles dt ids g) =
          map (\<lambda>(p', s). moveProjectile gr dt p')
            (filter (\<lambda>(p', s). outcome gr dt p' s = Flying)
               (passTrace gr dt ids (projectiles g) g))"
    if gr: "gr = gravity (physics (config g)) * (85 / 100)"
  proof -
    let ?tr = "passTrace gr dt ids (projectiles g) g"
    let ?end = "foldl (\<lambda>s p'. snd (updateProjectile gr dt ids p' s)) g (projectiles g)"
    have whole: "updateProjectiles dt ids g =
        ?end\<lparr>projectiles :=
                filter active (map (\<lambda>(p', s). fst (updateProjectile gr dt ids p' s)) ?tr)\<rparr>"
      unfolding updateProjectiles_eq gr updateProjectiles_loop_trace by simp
    have 1: "map fst ?tr = projectiles g" by (rule passTrace_fst)
    have 2: "projectiles g \<noteq> [] \<longrightarrow> snd (?tr ! 0) = g"
      using passTrace_hd by blast
    have 3: "\<forall>i. Suc i < length (projectiles g) \<longrightarrow>
           snd (?tr ! Suc i) = snd (updateProjectile gr dt ids (fst (?tr ! i)) (snd (?tr ! i)))"
      using passTrace_nth by blast
    have 5: "platforms (updateProjectiles dt ids g) =
          platforms g @
          concat (map (\<lambda>(p', s). if outcome gr dt p' s = Stuck
                                   then [stuckPlatform gr dt ids p' s] else []) ?tr)"
      unfolding whole by (simp add: passTrace_platforms)
    have 6: "projectiles (updateProjectiles dt ids g) =
          map (\<lambda>(p', s). moveProjectile gr dt p')
            (filter (\<lambda>(p', s). outcome gr dt p' s = Flying) ?tr)"
      unfolding whole by (simp add: survivors_of_trace)
    from 1 2 3 whole 5 6 show ?thesis by blast
  qed
  from body by_outcome bounds pass show ?thesis by blast
qed

text \<open>
  A pass over three projectiles with one crawler: the first hits the crawler and is
  consumed, the second, which the crawler would have taken too, sticks to the wall, the
  third flies on. The pass pushes one platform and keeps one projectile.
\<close>

theorem updateProjectile_single_outcome_witness:
  "active (hd (projectiles game_three_projectiles)) \<and>
   map (\<lambda>(p, s). outcome (119 / 10) (33 / 1000) p s)
     (passTrace (119 / 10) (33 / 1000) real (projectiles game_three_projectiles)
        game_three_projectiles) = [Consumed, Stuck, Flying] \<and>
   platforms (updateProjectiles (33 / 1000) real game_three_projectiles) =
     [\<lparr>plat_id = 0, plat_y = 2, createdAt = - 1\<rparr>,
      \<lparr>plat_id = 1, plat_y = 9870409 / 10000000, createdAt = 0\<rparr>] \<and>
   map proj_id (projectiles (updateProjectiles (33 / 1000) real game_three_projectiles)) = [3]"
proof -
  let ?G = game_three_projectiles
  let ?tr = "passTrace (119 / 10) (33 / 1000) real (projectiles ?G) ?G"
  have a: "active (hd (projectiles ?G))"
    by (simp add: game_three_projectiles_def)
  have gr: "119 / 10 = gravity (physics (config ?G)) * (85 / 100)"
    by (simp add: game_three_projectiles_def game_default_def game_defs)
  have o: "map (\<lambda>(p, s). outcome (119 / 10) (33 / 1000) p s) ?tr = [Consumed, Stuck, Flying]"
    by (simp add: game_three_projectiles_def game_default_def game_defs outcome_def
          crawler_hits_def cong: let_weak_cong)
  have st: "concat (map (\<lambda>(p, s). if outcome (119 / 10) (33 / 1000) p s = Stuck
                                   then [stuckPlatform (119 / 10) (33 / 1000) real p s] else [])
                     ?tr) =
      [\<lparr>plat_id = 1, plat_y = 9870409 / 10000000, createdAt = 0\<rparr>]"
    by (simp add: game_three_projectiles_def game_default_def game_defs outcome_def
          crawler_hits_def stuckPlatform_def cong: let_weak_cong)
  have fl: "map proj_id (map (\<lambda>(p, s). moveProjectile (119 / 10) (33 / 1000) p)
              (filter (\<lambda>(p, s). outcome (119 / 10) (33 / 1000) p s = Flying) ?tr)) = [3]"
    by (simp add: game_three_projectiles_def game_default_def game_defs outcome_def
          crawler_hits_def cong: let_weak_cong)
  have pl: "platforms ?G = [\<lparr>plat_id = 0, plat_y = 2, createdAt = - 1\<rparr>]"
    by (simp add: game_three_projectiles_def game_default_def game_defs)
  from updateProjectile_single_outcome[of "hd (projectiles ?G)" ?G "119 / 10" "33 / 1000" real] gr
  have "platforms (updateProjectiles (33 / 1000) real ?G) =
          platforms ?G @
          concat (map (\<lambda>(p, s). if outcome (119 / 10) (33 / 1000) p s = Stuck
                                   then [stuckPlatform (119 / 10) (33 / 1000) real p s] else [])
                    ?tr) \<and>
        projectiles (updateProjectiles (33 / 1000) real ?G) =
          map (\<lambda>(p, s). moveProjectile (119 / 10) (33 / 1000) p)
            (filter (\<lambda>(p, s). outcome (119 / 10) (33 / 1000) p s = Flying) ?tr)"
    by blast
  with a o st fl pl show ?thesis by simp
qed

text \<open>
  C4 (amended). \<^verbatim>\<open>throwPlatform\<close> succeeds exactly when the mode is playing, the
  budget is positive and \<open>time - lastThrowAt \<ge> cooldown\<close>; a refused throw returns false
  and leaves the game as it was; an accepted one appends one projectile, takes one from
  the budget and stamps \<open>lastThrowAt\<close> with the time. Along a run that starts with
  \<^verbatim>\<open>resetGame\<close>, \<open>lastThrowAt\<close> is the time of the last successful throw, and \<open>0\<close>,
  the start of the run, as long as there is none: the first throw of a run is refused
  until \<open>cooldown\<close> seconds have passed.
\<close>

theorem throwPlatform_accepts_iff:
  "(fst (throwPlatform pid u g) \<longleftrightarrow>
      mode g = playing \<and> 0 < platformsLeft g \<and>
      cooldown (throwing (config g)) \<le> time g - lastThrowAt g)
   \<and> (\<not> fst (throwPlatform pid u g) \<longrightarrow> snd (throwPlatform pid u g) = g)
   \<and> (fst (throwPlatform pid u g) \<longrightarrow>
        lastThrowAt (snd (throwPlatform pid u g)) = time g \<and>
        platformsLeft (snd (throwPlatform pid u g)) = platformsLeft g - 1 \<and>
        length (projectiles (snd (throwPlatform pid u g))) = Suc (length (projectiles g)))
   \<and> lastThrowAt (run es (resetGame pid0 g0)) =
        (case lastSuccessfulThrow es (resetGame pid0 g0) of None \<Rightarrow> 0 | Some t \<Rightarrow> t)"
proof -
  have r: "lastThrowAt (resetGame pid0 g0) = 0"
    by (simp add: resetGame_def Let_def)
  have l: "lastThrowAt (run es (resetGame pid0 g0)) =
        (case lastSuccessfulThrow es (resetGame pid0 g0) of None \<Rightarrow> 0 | Some t \<Rightarrow> t)"
    using run_lastThrowAt[of es "resetGame pid0 g0"] r by (simp split: option.splits)
  have t: "(fst (throwPlatform pid u g) \<longleftrightarrow>
      mode g = playing \<and> 0 < platformsLeft g \<and>
      cooldown (throwing (config g)) \<le> time g - lastThrowAt g)
   \<and> (\<not> fst (throwPlatform pid u g) \<longrightarrow> snd (throwPlatform pid u g) = g)
   \<and> (fst (throwPlatform pid u g) \<longrightarrow>
        lastThrowAt (snd (throwPlatform pid u g)) = time g \<and>
        platformsLeft (snd (throwPlatform pid u g)) = platformsLeft g - 1 \<and>
        length (projectiles (snd (throwPlatform pid u g))) = Suc (length (projectiles g)))"
    by (simp add: throwPlatform_eq)
  from t l show ?thesis by blast
qed

theorem throwPlatform_accepts_iff_witness:
  "\<not> fst (throwPlatform 1 0 game_default) \<and>
   snd (throwPlatform 1 0 game_default) = game_default \<and>
   fst (throwPlatform 1 0 (game_default\<lparr>time := 2 / 10\<rparr>)) \<and>
   platformsLeft (snd (throwPlatform 1 0 (game_default\<lparr>time := 2 / 10\<rparr>))) = 9"
proof -
  have a: "\<not> (mode game_default = playing \<and> 0 < platformsLeft game_default \<and>
      cooldown (throwing (config game_default)) \<le> time game_default - lastThrowAt game_default)"
    by (simp add: game_default_def game_defs)
  have b: "mode (game_default\<lparr>time := 2 / 10\<rparr>) = playing \<and>
      0 < platformsLeft (game_default\<lparr>time := 2 / 10\<rparr>) \<and>
      cooldown (throwing (config (game_default\<lparr>time := 2 / 10\<rparr>)))
        \<le> time (game_default\<lparr>time := 2 / 10\<rparr>) - lastThrowAt (game_default\<lparr>time := 2 / 10\<rparr>)"
    by (simp add: game_default_def game_defs)
  have p: "platformsLeft (game_default\<lparr>time := 2 / 10\<rparr>) = 10"
    by (simp add: game_default_def game_defs)
  from throwPlatform_accepts_iff[of 1 0 game_default "[]" 0 game_default] a
  have 1: "\<not> fst (throwPlatform 1 0 game_default) \<and>
      snd (throwPlatform 1 0 game_default) = game_default" by blast
  from throwPlatform_accepts_iff[of 1 0 "game_default\<lparr>time := 2 / 10\<rparr>" "[]" 0 game_default] b
  have 2: "fst (throwPlatform 1 0 (game_default\<lparr>time := 2 / 10\<rparr>)) \<and>
      platformsLeft (snd (throwPlatform 1 0 (game_default\<lparr>time := 2 / 10\<rparr>))) =
        platformsLeft (game_default\<lparr>time := 2 / 10\<rparr>) - 1" by blast
  from 1 2 p show ?thesis by simp
qed

text \<open>
  C4 as stated fails for the first throw of a run: in a new game nothing has been thrown,
  the mode is playing and the budget is positive, and a throw at time \<open>0\<close> is refused.
\<close>

theorem first_throw_refused:
  "\<not> (fst (throwPlatform 1 0 game_default) \<longleftrightarrow>
       mode game_default = playing \<and> 0 < platformsLeft game_default \<and>
       (case lastSuccessfulThrow [] game_default of
          None \<Rightarrow> True
        | Some t \<Rightarrow> cooldown (throwing (config game_default)) \<le> time game_default - t))"
  by (simp add: game_default_def game_defs)

text \<open>
  C3. With a configured count of one half (not negative) a new game has a budget of one
  half; the throw that the cooldown allows after seven ticks takes a whole platform and
  leaves the budget at minus one half.
\<close>

theorem fractional_budget_goes_negative:
  "0 \<le> count (platform cfg_half_platform) \<and>
   platformsLeft (newGame cfg_half_platform 6 0) = 1 / 2 \<and>
   platformsLeft
     (run [Tick env_bounce10 (33 / 1000), Tick env_bounce10 (33 / 1000),
           Tick env_bounce10 (33 / 1000), Tick env_bounce10 (33 / 1000),
           Tick env_bounce10 (33 / 1000), Tick env_bounce10 (33 / 1000),
           Tick env_bounce10 (33 / 1000), Throw 1 0]
        (newGame cfg_half_platform 6 0)) = - 1 / 2"
  by (simp add: cfg_half_platform_def env_bounce10_def game_defs sqrt_100 cong: let_weak_cong)

end
